theory Spec2Isabelle
  imports Complex_Main "HOL-Library.AList"
begin

section \<open>Numbers, strings and the graph store\<close>

text \<open>
  The metadata quality engine is written in TypeScript. Its numbers are modelled as
  real numbers (counts as natural numbers, injected with \<open>real\<close>), its strings as
  \<open>string\<close>, its nullable values as \<open>option\<close>, its objects as records and its
  \<open>async\<close> functions as the sequential functions they are once every \<open>await\<close>
  has resumed. Every division of the source sits under the source's own test that the
  divisor is not zero, and the model keeps those tests where the source has them.
  Counts and their percentages are computed exactly; what the rounding of the runtime's
  binary64 numbers does to the score of a dimension is the subject of a section of its
  own, which repeats \<open>calculateDimension\<close> with every operation rounded.
\<close>

subsection \<open>String helpers of the runtime\<close>

definition toUpperChar :: "char \<Rightarrow> char" where
  "toUpperChar c =
     (let n = (of_char c :: nat) in if 97 \<le> n \<and> n \<le> 122 then char_of (n - 32) else c)"

definition toLowerChar :: "char \<Rightarrow> char" where
  "toLowerChar c =
     (let n = (of_char c :: nat) in if 65 \<le> n \<and> n \<le> 90 then char_of (n + 32) else c)"

text \<open>\<open>String.prototype.toUpperCase\<close> and \<open>toLowerCase\<close>, on the ASCII letters.\<close>

definition toUpperCase :: "string \<Rightarrow> string" where
  "toUpperCase s = map toUpperChar s"

definition toLowerCase :: "string \<Rightarrow> string" where
  "toLowerCase s = map toLowerChar s"

text \<open>\<open>s.startsWith(p)\<close>.\<close>

definition startsWith :: "string \<Rightarrow> string \<Rightarrow> bool" where
  "startsWith s p = (take (length p) s = p)"

text \<open>\<open>s.includes(sub)\<close>.\<close>

definition str_includes :: "string \<Rightarrow> string \<Rightarrow> bool" where
  "str_includes s sub = list_ex (\<lambda>i. take (length sub) (drop i s) = sub) [0..<Suc (length s)]"

text \<open>The decimal text of a number inside a template literal.\<close>

definition digit_char :: "nat \<Rightarrow> char" where
  "digit_char d = char_of (48 + d)"

fun show_nat :: "nat \<Rightarrow> string" where
  "show_nat n = (if n < 10 then [digit_char n] else show_nat (n div 10) @ [digit_char (n mod 10)])"

text \<open>\<open>id.replace(/_/g, ' ')\<close>.\<close>

definition replaceUnderscores :: "string \<Rightarrow> string" where
  "replaceUnderscores s = map (\<lambda>c. if c = CHR ''_'' then CHR '' '' else c) s"

text \<open>
  JavaScript truthiness of a \<open>string | null\<close>: \<open>null\<close> and the empty string are falsy.
\<close>

definition truthy :: "string option \<Rightarrow> bool" where
  "truthy v = (case v of None \<Rightarrow> False | Some s \<Rightarrow> s \<noteq> [])"

subsection \<open>The graph store\<close>

text \<open>
  Modelled from the spec: the graph storage layer (the N3 \<open>Store\<close> class) is an external
  collaborator, consumed through "list subjects of a given type" and "get the object
  values of a subject and predicate". Its terms are IRIs (named nodes), blank nodes and
  literals (with their language tag or datatype); \<open>term.value\<close> is the IRI, the blank
  node's label or the literal's text. A store holds facts (subject, predicate, object),
  here in the order in which they were added.
\<close>

datatype Term = NamedNode string | BlankNode string | Literal string string

fun term_value :: "Term \<Rightarrow> string" where
  "term_value (NamedNode iri) = iri"
| "term_value (BlankNode label) = label"
| "term_value (Literal text qualifier) = text"

type_synonym Quad = "Term \<times> Term \<times> Term"
type_synonym Store = "Quad list"

text \<open>
  The store finds a term by its identifier, and a string handed to it is read as an
  identifier: the identifier of an IRI is the IRI itself, that of a blank node is its
  label after \<open>_:\<close>. So \<open>namedNode(s)\<close>, like the bare string \<open>s\<close>, denotes the IRI
  \<open>s\<close> for every text that does not start with \<open>_:\<close>; in particular the label of a
  blank node, taken as its \<open>value\<close>, denotes an IRI and not the blank node.
  (Identifiers of literals start with a quotation mark; no subject or predicate is one.)
\<close>

definition termOfId :: "string \<Rightarrow> Term" where
  "termOfId i = (if startsWith i ''_:'' then BlankNode (drop 2 i) else NamedNode i)"

definition namedNode :: "string \<Rightarrow> Term" where
  "namedNode iri = termOfId iri"

text \<open>
  The store numbers the terms as it first sees them (subject, predicate, object of each
  added fact in turn), and its queries enumerate matching terms by that number, each
  term once.
\<close>

definition firstOccurrences :: "'a list \<Rightarrow> 'a list" where
  "firstOccurrences xs = rev (remdups (rev xs))"

definition store_terms :: "Store \<Rightarrow> Term list" where
  "store_terms st = firstOccurrences (concat (map (\<lambda>(s, p, ob). [s, p, ob]) st))"

definition store_getSubjects :: "Store \<Rightarrow> Term \<Rightarrow> Term \<Rightarrow> Term list" where
  "store_getSubjects st p ob = filter (\<lambda>s. (s, p, ob) \<in> set st) (store_terms st)"

definition store_getObjects :: "Store \<Rightarrow> Term \<Rightarrow> Term \<Rightarrow> Term list" where
  "store_getObjects st s p = filter (\<lambda>ob. (s, p, ob) \<in> set st) (store_terms st)"

definition store_getQuads :: "Store \<Rightarrow> Term \<Rightarrow> Term \<Rightarrow> Quad list" where
  "store_getQuads st s p = map (\<lambda>ob. (s, p, ob)) (store_getObjects st s p)"

text \<open>The entries of \<open>NAMESPACES\<close> that the evaluators use.\<close>

definition NS_rdf :: string where
  "NS_rdf = ''http://www.w3.org/1999/02/22-rdf-syntax-ns#''"

definition NS_dcat :: string where
  "NS_dcat = ''http://www.w3.org/ns/dcat#''"

definition NS_dct :: string where
  "NS_dct = ''http://purl.org/dc/terms/''"

text \<open>
  The helpers of \<open>rdf.ts\<close>: they return the \<open>value\<close> of each term found, and look
  subjects and predicates up as \<open>namedNode\<close> of the string they are given.
\<close>

definition getSubjectsByType :: "Store \<Rightarrow> string \<Rightarrow> string list" where
  "getSubjectsByType st typeUri =
     map term_value
       (store_getSubjects st (namedNode ''http://www.w3.org/1999/02/22-rdf-syntax-ns#type'')
          (namedNode typeUri))"

definition getObjects :: "Store \<Rightarrow> string \<Rightarrow> string \<Rightarrow> string list" where
  "getObjects st subjectUri predicateUri =
     map term_value (store_getObjects st (namedNode subjectUri) (namedNode predicateUri))"

definition getObjectValue :: "Store \<Rightarrow> string \<Rightarrow> string \<Rightarrow> string option" where
  "getObjectValue st subjectUri predicateUri =
     (let objects = getObjects st subjectUri predicateUri
      in if length objects > 0 then Some (hd objects) else None)"

section \<open>Metric outcomes\<close>

text \<open>
  \<open>formatMetricDetail(key, params)\<close> returns \<open>JSON.stringify({ key, params })\<close>. The
  JSON text is represented by the value it serialises: the key and the parameters, which
  are absent from the text when the caller passes none.
\<close>

datatype Param = PNum nat | PStr string

datatype Detail = Detail string "(string \<times> Param) list option"

definition formatMetricDetail :: "string \<Rightarrow> (string \<times> Param) list option \<Rightarrow> Detail" where
  "formatMetricDetail key params = Detail key params"

text \<open>The object \<open>{ value, passed, details }\<close> that every evaluator returns.\<close>

record Eval =
  ev_value :: real
  ev_passed :: bool
  ev_details :: Detail

text \<open>
  The counting loop shared by the evaluators:
  \<open>let c = 0; for (const x of xs) { if (p(x)) c++; }\<close>.
\<close>

fun countIf :: "('a \<Rightarrow> bool) \<Rightarrow> 'a list \<Rightarrow> nat \<Rightarrow> nat" where
  "countIf p [] c = c"
| "countIf p (x # xs) c = countIf p xs (if p x then c + 1 else c)"

subsection \<open>Findability\<close>

definition evaluateKeywordAvailability :: "Store \<Rightarrow> Eval" where
  "evaluateKeywordAvailability st =
     (let datasets = getSubjectsByType st (NS_dcat @ ''Dataset'')
      in if length datasets = 0
         then \<lparr>ev_value = 0, ev_passed = False,
               ev_details = formatMetricDetail ''metricDetails.noDatasetsFound'' None\<rparr>
         else
           let datasetsWithKeywords =
                 countIf (\<lambda>dataset. length (store_getQuads st (termOfId dataset) (termOfId (NS_dcat @ ''keyword''))) > 0)
                   datasets 0;
               percentage = (real datasetsWithKeywords / real (length datasets)) * 100
           in \<lparr>ev_value = percentage, ev_passed = (percentage > 0),
                ev_details = formatMetricDetail ''metricDetails.datasetsHaveKeywords''
                  (Some [(''count'', PNum datasetsWithKeywords), (''total'', PNum (length datasets))])\<rparr>)"

definition evaluateThemeAvailability :: "Store \<Rightarrow> Eval" where
  "evaluateThemeAvailability st =
     (let datasets = getSubjectsByType st (NS_dcat @ ''Dataset'')
      in if length datasets = 0
         then \<lparr>ev_value = 0, ev_passed = False,
               ev_details = formatMetricDetail ''metricDetails.noDatasetsFound'' None\<rparr>
         else
           let datasetsWithTheme =
                 countIf (\<lambda>dataset. length (store_getQuads st (termOfId dataset) (termOfId (NS_dcat @ ''theme''))) > 0)
                   datasets 0;
               percentage = (real datasetsWithTheme / real (length datasets)) * 100
           in \<lparr>ev_value = percentage, ev_passed = (percentage > 0),
                ev_details = formatMetricDetail ''metricDetails.datasetsHaveThemes''
                  (Some [(''count'', PNum datasetsWithTheme), (''total'', PNum (length datasets))])\<rparr>)"

definition evaluateSpatialAvailability :: "Store \<Rightarrow> Eval" where
  "evaluateSpatialAvailability st =
     (let datasets = getSubjectsByType st (NS_dcat @ ''Dataset'')
      in if length datasets = 0
         then \<lparr>ev_value = 0, ev_passed = False,
               ev_details = formatMetricDetail ''metricDetails.noDatasetsFound'' None\<rparr>
         else
           let datasetsWithSpatial =
                 countIf (\<lambda>dataset. length (store_getQuads st (termOfId dataset) (termOfId (NS_dct @ ''spatial''))) > 0)
                   datasets 0;
               percentage = (real datasetsWithSpatial / real (length datasets)) * 100
           in \<lparr>ev_value = percentage, ev_passed = (percentage > 0),
                ev_details = formatMetricDetail ''metricDetails.datasetsHaveSpatialCoverage''
                  (Some [(''count'', PNum datasetsWithSpatial), (''total'', PNum (length datasets))])\<rparr>)"

definition evaluateTemporalAvailability :: "Store \<Rightarrow> Eval" where
  "evaluateTemporalAvailability st =
     (let datasets = getSubjectsByType st (NS_dcat @ ''Dataset'')
      in if length datasets = 0
         then \<lparr>ev_value = 0, ev_passed = False,
               ev_details = formatMetricDetail ''metricDetails.noDatasetsFound'' None\<rparr>
         else
           let datasetsWithTemporal =
                 countIf (\<lambda>dataset. length (store_getQuads st (termOfId dataset) (termOfId (NS_dct @ ''temporal''))) > 0)
                   datasets 0;
               percentage = (real datasetsWithTemporal / real (length datasets)) * 100
           in \<lparr>ev_value = percentage, ev_passed = (percentage > 0),
                ev_details = formatMetricDetail ''metricDetails.datasetsHaveTemporalCoverage''
                  (Some [(''count'', PNum datasetsWithTemporal), (''total'', PNum (length datasets))])\<rparr>)"

subsection \<open>Existence metrics on distributions and datasets\<close>

definition evaluateDownloadURLAvailability :: "Store \<Rightarrow> Eval" where
  "evaluateDownloadURLAvailability st =
     (let distributions = getSubjectsByType st (NS_dcat @ ''Distribution'')
      in if length distributions = 0
         then \<lparr>ev_value = 0, ev_passed = False,
               ev_details = formatMetricDetail ''metricDetails.noDistributionsFound'' None\<rparr>
         else
           let distributionsWithDownloadURL =
                 countIf (\<lambda>dist. truthy (getObjectValue st dist (NS_dcat @ ''downloadURL'')))
                   distributions 0;
               percentage = (real distributionsWithDownloadURL / real (length distributions)) * 100
           in \<lparr>ev_value = percentage, ev_passed = (percentage > 0),
                ev_details = formatMetricDetail ''metricDetails.distributionsHaveDownloadURL''
                  (Some [(''count'', PNum distributionsWithDownloadURL), (''total'', PNum (length distributions))])\<rparr>)"

definition evaluateFormatAvailability :: "Store \<Rightarrow> Eval" where
  "evaluateFormatAvailability st =
     (let distributions = getSubjectsByType st (NS_dcat @ ''Distribution'')
      in if length distributions = 0
         then \<lparr>ev_value = 0, ev_passed = False,
               ev_details = formatMetricDetail ''metricDetails.noDistributionsFound'' None\<rparr>
         else
           let distributionsWithFormat =
                 countIf (\<lambda>dist. truthy (getObjectValue st dist (NS_dct @ ''format'')))
                   distributions 0;
               percentage = (real distributionsWithFormat / real (length distributions)) * 100
           in \<lparr>ev_value = percentage, ev_passed = (percentage > 0),
                ev_details = formatMetricDetail ''metricDetails.distributionsHaveFormat''
                  (Some [(''count'', PNum distributionsWithFormat), (''total'', PNum (length distributions))])\<rparr>)"

definition evaluateMediaTypeAvailability :: "Store \<Rightarrow> Eval" where
  "evaluateMediaTypeAvailability st =
     (let distributions = getSubjectsByType st (NS_dcat @ ''Distribution'')
      in if length distributions = 0
         then \<lparr>ev_value = 0, ev_passed = False,
               ev_details = formatMetricDetail ''metricDetails.noDistributionsFound'' None\<rparr>
         else
           let distributionsWithMediaType =
                 countIf (\<lambda>dist. truthy (getObjectValue st dist (NS_dcat @ ''mediaType'')))
                   distributions 0;
               percentage = (real distributionsWithMediaType / real (length distributions)) * 100
           in \<lparr>ev_value = percentage, ev_passed = (percentage > 0),
                ev_details = formatMetricDetail ''metricDetails.distributionsHaveMediaType''
                  (Some [(''count'', PNum distributionsWithMediaType), (''total'', PNum (length distributions))])\<rparr>)"

definition evaluateLicenseAvailability :: "Store \<Rightarrow> Eval" where
  "evaluateLicenseAvailability st =
     (let distributions = getSubjectsByType st (NS_dcat @ ''Distribution'')
      in if length distributions = 0
         then \<lparr>ev_value = 0, ev_passed = False,
               ev_details = formatMetricDetail ''metricDetails.noDistributionsFound'' None\<rparr>
         else
           let distributionsWithLicense =
                 countIf (\<lambda>dist. truthy (getObjectValue st dist (NS_dct @ ''license'')))
                   distributions 0;
               percentage = (real distributionsWithLicense / real (length distributions)) * 100
           in \<lparr>ev_value = percentage, ev_passed = (percentage > 0),
                ev_details = formatMetricDetail ''metricDetails.distributionsHaveLicense''
                  (Some [(''count'', PNum distributionsWithLicense), (''total'', PNum (length distributions))])\<rparr>)"

definition evaluateAccessRightsAvailability :: "Store \<Rightarrow> Eval" where
  "evaluateAccessRightsAvailability st =
     (let datasets = getSubjectsByType st (NS_dcat @ ''Dataset'')
      in if length datasets = 0
         then \<lparr>ev_value = 0, ev_passed = False,
               ev_details = formatMetricDetail ''metricDetails.noDatasetsFound'' None\<rparr>
         else
           let datasetsWithAccessRights =
                 countIf (\<lambda>dataset. truthy (getObjectValue st dataset (NS_dct @ ''accessRights'')))
                   datasets 0;
               percentage = (real datasetsWithAccessRights / real (length datasets)) * 100
           in \<lparr>ev_value = percentage, ev_passed = (percentage > 0),
                ev_details = formatMetricDetail ''metricDetails.datasetsHaveAccessRights''
                  (Some [(''count'', PNum datasetsWithAccessRights), (''total'', PNum (length datasets))])\<rparr>)"

definition evaluateContactPointAvailability :: "Store \<Rightarrow> Eval" where
  "evaluateContactPointAvailability st =
     (let datasets = getSubjectsByType st (NS_dcat @ ''Dataset'')
      in if length datasets = 0
         then \<lparr>ev_value = 0, ev_passed = False,
               ev_details = formatMetricDetail ''metricDetails.noDatasetsFound'' None\<rparr>
         else
           let datasetsWithContactPoint =
                 countIf (\<lambda>dataset. truthy (getObjectValue st dataset (NS_dcat @ ''contactPoint'')))
                   datasets 0;
               percentage = (real datasetsWithContactPoint / real (length datasets)) * 100
           in \<lparr>ev_value = percentage, ev_passed = (percentage > 0),
                ev_details = formatMetricDetail ''metricDetails.datasetsHaveContactPoint''
                  (Some [(''count'', PNum datasetsWithContactPoint), (''total'', PNum (length datasets))])\<rparr>)"

definition evaluatePublisherAvailability :: "Store \<Rightarrow> Eval" where
  "evaluatePublisherAvailability st =
     (let datasets = getSubjectsByType st (NS_dcat @ ''Dataset'')
      in if length datasets = 0
         then \<lparr>ev_value = 0, ev_passed = False,
               ev_details = formatMetricDetail ''metricDetails.noDatasetsFound'' None\<rparr>
         else
           let datasetsWithPublisher =
                 countIf (\<lambda>dataset. truthy (getObjectValue st dataset (NS_dct @ ''publisher'')))
                   datasets 0;
               percentage = (real datasetsWithPublisher / real (length datasets)) * 100
           in \<lparr>ev_value = percentage, ev_passed = (percentage > 0),
                ev_details = formatMetricDetail ''metricDetails.datasetsHavePublisher''
                  (Some [(''count'', PNum datasetsWithPublisher), (''total'', PNum (length datasets))])\<rparr>)"

definition evaluateByteSizeAvailability :: "Store \<Rightarrow> Eval" where
  "evaluateByteSizeAvailability st =
     (let distributions = getSubjectsByType st (NS_dcat @ ''Distribution'')
      in if length distributions = 0
         then \<lparr>ev_value = 0, ev_passed = False,
               ev_details = formatMetricDetail ''metricDetails.noDistributionsFound'' None\<rparr>
         else
           let distributionsWithByteSize =
                 countIf (\<lambda>dist. truthy (getObjectValue st dist (NS_dcat @ ''byteSize'')))
                   distributions 0;
               percentage = (real distributionsWithByteSize / real (length distributions)) * 100
           in \<lparr>ev_value = percentage, ev_passed = (percentage > 0),
                ev_details = formatMetricDetail ''metricDetails.distributionsHaveByteSize''
                  (Some [(''count'', PNum distributionsWithByteSize), (''total'', PNum (length distributions))])\<rparr>)"

definition evaluateIssuedDateAvailability :: "Store \<Rightarrow> Eval" where
  "evaluateIssuedDateAvailability st =
     (let datasets = getSubjectsByType st (NS_dcat @ ''Dataset'')
      in if length datasets = 0
         then \<lparr>ev_value = 0, ev_passed = False,
               ev_details = formatMetricDetail ''metricDetails.noDatasetsFound'' None\<rparr>
         else
           let entitiesWithIssued =
                 countIf (\<lambda>dataset. truthy (getObjectValue st dataset (NS_dct @ ''issued'')))
                   datasets 0;
               percentage = (real entitiesWithIssued / real (length datasets)) * 100
           in \<lparr>ev_value = percentage, ev_passed = (percentage > 0),
                ev_details = formatMetricDetail ''metricDetails.entitiesHaveIssuedDate''
                  (Some [(''count'', PNum entitiesWithIssued), (''total'', PNum (length datasets))])\<rparr>)"

definition evaluateModifiedDateAvailability :: "Store \<Rightarrow> Eval" where
  "evaluateModifiedDateAvailability st =
     (let datasets = getSubjectsByType st (NS_dcat @ ''Dataset'')
      in if length datasets = 0
         then \<lparr>ev_value = 0, ev_passed = False,
               ev_details = formatMetricDetail ''metricDetails.noDatasetsFound'' None\<rparr>
         else
           let entitiesWithModified =
                 countIf (\<lambda>dataset. truthy (getObjectValue st dataset (NS_dct @ ''modified'')))
                   datasets 0;
               percentage = (real entitiesWithModified / real (length datasets)) * 100
           in \<lparr>ev_value = percentage, ev_passed = (percentage > 0),
                ev_details = formatMetricDetail ''metricDetails.entitiesHaveModifiedDate''
                  (Some [(''count'', PNum entitiesWithModified), (''total'', PNum (length datasets))])\<rparr>)"

definition evaluateRightsAvailability :: "Store \<Rightarrow> Eval" where
  "evaluateRightsAvailability st =
     (let distributions = getSubjectsByType st (NS_dcat @ ''Distribution'')
      in if length distributions = 0
         then \<lparr>ev_value = 0, ev_passed = False,
               ev_details = formatMetricDetail ''metricDetails.noDistributionsFound'' None\<rparr>
         else
           let distributionsWithRights =
                 countIf (\<lambda>dist. truthy (getObjectValue st dist (NS_dct @ ''rights'')))
                   distributions 0;
               percentage = (real distributionsWithRights / real (length distributions)) * 100
           in \<lparr>ev_value = percentage, ev_passed = (percentage > 0),
                ev_details = formatMetricDetail ''metricDetails.distributionsHaveRights''
                  (Some [(''count'', PNum distributionsWithRights), (''total'', PNum (length distributions))])\<rparr>)"

section \<open>Controlled vocabularies\<close>

text \<open>
  The vocabulary sets of \<open>vocabularies.ts\<close> as they stand once \<open>loadAllVocabularies\<close>
  has run; a file that cannot be fetched or parsed contributes the empty set.
\<close>

record Vocabularies =
  KNOWN_LICENSES :: "string list"
  KNOWN_ACCESS_RIGHTS :: "string list"
  MACHINE_READABLE_FORMATS :: "string list"
  NON_PROPRIETARY_FORMATS :: "string list"

definition FORMAT_LABELS :: "(string \<times> string) list" where
  "FORMAT_LABELS =
     [(''RDF'', ''application/rdf+xml''),
      (''TURTLE'', ''text/turtle''),
      (''TTL'', ''text/turtle''),
      (''JSONLD'', ''application/ld+json''),
      (''JSON-LD'', ''application/ld+json''),
      (''NT'', ''application/n-triples''),
      (''NTRIPLES'', ''application/n-triples''),
      (''JSON'', ''application/json''),
      (''XML'', ''application/xml''),
      (''CSV'', ''text/csv''),
      (''PDF'', ''application/pdf''),
      (''HTML'', ''text/html''),
      (''XLSX'', ''application/vnd.openxmlformats-officedocument.spreadsheetml.sheet''),
      (''XLS'', ''application/vnd.ms-excel'')]"

definition normalizeFormat :: "string \<Rightarrow> string" where
  "normalizeFormat format =
     (if str_includes format ''/'' then toLowerCase format
      else (case map_of FORMAT_LABELS (toUpperCase format) of
              Some mediaType \<Rightarrow> mediaType
            | None \<Rightarrow> toLowerCase format))"

definition isMachineReadable :: "Vocabularies \<Rightarrow> string \<Rightarrow> bool" where
  "isMachineReadable voc format = (normalizeFormat format \<in> set (MACHINE_READABLE_FORMATS voc))"

definition isNonProprietary :: "Vocabularies \<Rightarrow> string \<Rightarrow> bool" where
  "isNonProprietary voc format = (normalizeFormat format \<in> set (NON_PROPRIETARY_FORMATS voc))"

definition isKnownLicense :: "Vocabularies \<Rightarrow> string \<Rightarrow> bool" where
  "isKnownLicense voc license = (license \<in> set (KNOWN_LICENSES voc))"

definition isKnownAccessRights :: "Vocabularies \<Rightarrow> string \<Rightarrow> bool" where
  "isKnownAccessRights voc accessRights = (accessRights \<in> set (KNOWN_ACCESS_RIGHTS voc))"

subsection \<open>Vocabulary and format-class metrics\<close>

definition evaluateFormatMediaTypeVocabulary :: "Store \<Rightarrow> Eval" where
  "evaluateFormatMediaTypeVocabulary st =
     (let distributions = getSubjectsByType st (NS_dcat @ ''Distribution'')
      in if length distributions = 0
         then \<lparr>ev_value = 0, ev_passed = False,
               ev_details = formatMetricDetail ''metricDetails.noDistributionsFound'' None\<rparr>
         else
           let distributionsWithKnownFormat =
                 countIf (\<lambda>dist.
                     (let format = getObjectValue st dist (NS_dct @ ''format'');
                          mediaType = getObjectValue st dist (NS_dcat @ ''mediaType'')
                      in (case format of None \<Rightarrow> False
                          | Some f \<Rightarrow> f \<noteq> [] \<and> str_includes (normalizeFormat f) ''/'')
                       \<or> (case mediaType of None \<Rightarrow> False
                          | Some m \<Rightarrow> m \<noteq> [] \<and> str_includes m ''/'')))
                   distributions 0;
               percentage = (real distributionsWithKnownFormat / real (length distributions)) * 100
           in \<lparr>ev_value = percentage, ev_passed = (percentage > 0),
                ev_details = formatMetricDetail ''metricDetails.distributionsUseKnownFormat''
                  (Some [(''count'', PNum distributionsWithKnownFormat),
                         (''total'', PNum (length distributions))])\<rparr>)"

definition evaluateNonProprietaryFormat :: "Vocabularies \<Rightarrow> Store \<Rightarrow> Eval" where
  "evaluateNonProprietaryFormat voc st =
     (let distributions = getSubjectsByType st (NS_dcat @ ''Distribution'')
      in if length distributions = 0
         then \<lparr>ev_value = 0, ev_passed = False,
               ev_details = formatMetricDetail ''metricDetails.noDistributionsFound'' None\<rparr>
         else
           let distributionsWithNonProprietary =
                 countIf (\<lambda>dist.
                     (case getObjectValue st dist (NS_dct @ ''format'') of None \<Rightarrow> False
                      | Some format \<Rightarrow> format \<noteq> [] \<and> isNonProprietary voc format))
                   distributions 0;
               percentage = (real distributionsWithNonProprietary / real (length distributions)) * 100
           in \<lparr>ev_value = percentage, ev_passed = (percentage > 0),
                ev_details = formatMetricDetail ''metricDetails.distributionsUseNonProprietary''
                  (Some [(''count'', PNum distributionsWithNonProprietary),
                         (''total'', PNum (length distributions))])\<rparr>)"

definition evaluateMachineReadableFormat :: "Vocabularies \<Rightarrow> Store \<Rightarrow> Eval" where
  "evaluateMachineReadableFormat voc st =
     (let distributions = getSubjectsByType st (NS_dcat @ ''Distribution'')
      in if length distributions = 0
         then \<lparr>ev_value = 0, ev_passed = False,
               ev_details = formatMetricDetail ''metricDetails.noDistributionsFound'' None\<rparr>
         else
           let distributionsWithMachineReadable =
                 countIf (\<lambda>dist.
                     (case getObjectValue st dist (NS_dct @ ''format'') of None \<Rightarrow> False
                      | Some format \<Rightarrow> format \<noteq> [] \<and> isMachineReadable voc format))
                   distributions 0;
               percentage = (real distributionsWithMachineReadable / real (length distributions)) * 100
           in \<lparr>ev_value = percentage, ev_passed = (percentage > 0),
                ev_details = formatMetricDetail ''metricDetails.distributionsAreMachineReadable''
                  (Some [(''count'', PNum distributionsWithMachineReadable),
                         (''total'', PNum (length distributions))])\<rparr>)"

definition evaluateLicenseVocabulary :: "Vocabularies \<Rightarrow> Store \<Rightarrow> Eval" where
  "evaluateLicenseVocabulary voc st =
     (let distributions = getSubjectsByType st (NS_dcat @ ''Distribution'')
      in if length distributions = 0
         then \<lparr>ev_value = 0, ev_passed = False,
               ev_details = formatMetricDetail ''metricDetails.noDistributionsFound'' None\<rparr>
         else
           let distributionsWithKnownLicense =
                 countIf (\<lambda>dist.
                     (case getObjectValue st dist (NS_dct @ ''license'') of None \<Rightarrow> False
                      | Some license \<Rightarrow> license \<noteq> [] \<and> isKnownLicense voc license))
                   distributions 0;
               percentage = (real distributionsWithKnownLicense / real (length distributions)) * 100
           in \<lparr>ev_value = percentage, ev_passed = (percentage > 0),
                ev_details = formatMetricDetail ''metricDetails.distributionsUseKnownLicense''
                  (Some [(''count'', PNum distributionsWithKnownLicense),
                         (''total'', PNum (length distributions))])\<rparr>)"

definition evaluateAccessRightsVocabulary :: "Vocabularies \<Rightarrow> Store \<Rightarrow> Eval" where
  "evaluateAccessRightsVocabulary voc st =
     (let datasets = getSubjectsByType st (NS_dcat @ ''Dataset'')
      in if length datasets = 0
         then \<lparr>ev_value = 0, ev_passed = False,
               ev_details = formatMetricDetail ''metricDetails.noDatasetsFound'' None\<rparr>
         else
           let datasetsWithKnownAccessRights =
                 countIf (\<lambda>dataset.
                     (case getObjectValue st dataset (NS_dct @ ''accessRights'') of None \<Rightarrow> False
                      | Some accessRights \<Rightarrow>
                          accessRights \<noteq> [] \<and> isKnownAccessRights voc accessRights))
                   datasets 0;
               percentage = (real datasetsWithKnownAccessRights / real (length datasets)) * 100
           in \<lparr>ev_value = percentage, ev_passed = (percentage > 0),
                ev_details = formatMetricDetail ''metricDetails.datasetsUseKnownAccessRights''
                  (Some [(''count'', PNum datasetsWithKnownAccessRights),
                         (''total'', PNum (length datasets))])\<rparr>)"

section \<open>The URL accessibility checker\<close>

subsection \<open>The check-url-status route\<close>

text \<open>
  What a \<open>fetch\<close> gives is decided by the network, so it is a parameter
  (\<open>httpFetch\<close>): for a method, a URL and the delay after which the request is
  aborted, either a response or a rejection with the error's name, cause code and
  message. \<open>headDuration\<close> is the time the HEAD request for a URL takes to settle,
  given its abort delay. \<open>validUrl\<close> says whether \<open>new URL(url)\<close> accepts a text,
  and \<open>apiError\<close> is the message of the rejection when the client cannot reach the
  route at all.
\<close>

datatype Method = HEAD | GET

record FetchResponse =
  resp_status :: nat
  resp_statusText :: string
  resp_contentType :: "string option"
  resp_contentLength :: "string option"
  resp_redirected :: bool
  resp_url :: string

record FetchError =
  err_name :: string
  err_causeCode :: "string option"
  err_message :: "string option"

datatype FetchOutcome = Responded FetchResponse | Rejected FetchError

record Network =
  httpFetch :: "Method \<Rightarrow> string \<Rightarrow> nat \<Rightarrow> FetchOutcome"
  headDuration :: "string \<Rightarrow> nat \<Rightarrow> nat"
  validUrl :: "string \<Rightarrow> bool"
  apiError :: "string option"

text \<open>
  \<open>CheckUrlResponse\<close>. The field \<open>cr_contentLength\<close> holds the header text that the
  source hands to \<open>parseInt\<close>.
\<close>

record CheckUrlResponse =
  cr_url :: string
  cr_accessible :: bool
  cr_statusCode :: "nat option"
  cr_statusText :: "string option"
  cr_contentType :: "string option"
  cr_contentLength :: "string option"
  cr_error :: "string option"
  cr_redirected :: "bool option"
  cr_finalUrl :: "string option"

definition inaccessible :: "string \<Rightarrow> string \<Rightarrow> CheckUrlResponse" where
  "inaccessible u msg =
     \<lparr>cr_url = u, cr_accessible = False, cr_statusCode = None, cr_statusText = None,
      cr_contentType = None, cr_contentLength = None, cr_error = Some msg,
      cr_redirected = None, cr_finalUrl = None\<rparr>"

definition response_ok :: "nat \<Rightarrow> bool" where
  "response_ok s = (200 \<le> s \<and> s \<le> 299)"

definition classifyError :: "FetchError \<Rightarrow> string" where
  "classifyError e =
     (if err_name e = ''AbortError'' then ''Request timeout''
      else if err_causeCode e = Some ''ENOTFOUND'' then ''DNS lookup failed''
      else if err_causeCode e = Some ''ECONNREFUSED'' then ''Connection refused''
      else if err_causeCode e = Some ''ECONNRESET'' then ''Connection reset''
      else if err_causeCode e = Some ''ETIMEDOUT'' then ''Connection timeout''
      else if err_causeCode e = Some ''UNABLE_TO_VERIFY_LEAF_SIGNATURE''
            \<or> err_causeCode e = Some ''SELF_SIGNED_CERT_IN_CHAIN''
            \<or> err_causeCode e = Some ''CERT_HAS_EXPIRED''
            \<or> (case err_message e of None \<Rightarrow> False | Some m \<Rightarrow> str_includes m ''certificate'')
            \<or> (case err_message e of None \<Rightarrow> False | Some m \<Rightarrow> str_includes m ''SSL'')
      then ''SSL certificate error (but server may be accessible)''
      else (case err_message e of
              None \<Rightarrow> ''Unknown error''
            | Some m \<Rightarrow> if m \<noteq> [] then m else ''Unknown error''))"

text \<open>
  The route's own \<open>checkUrlStatus\<close>. The outer timer is started first and aborts after
  \<open>timeout\<close>; the HEAD request is aborted after \<open>min(timeout, 2000)\<close>. When HEAD
  answers 405 or 501, or is rejected, a ranged GET follows on the outer timer, which by
  then has only the time left that the HEAD request did not use; when none is left the
  GET is rejected at once as aborted.
\<close>

definition checkUrlStatus_route :: "Network \<Rightarrow> string \<Rightarrow> nat \<Rightarrow> CheckUrlResponse" where
  "checkUrlStatus_route net u tmo =
     (let headDelay = min tmo 2000;
          remaining = tmo - headDuration net u headDelay;
          fallback = (if remaining = 0
                      then Rejected \<lparr>err_name = ''AbortError'', err_causeCode = None,
                              err_message = Some ''This operation was aborted''\<rparr>
                      else httpFetch net GET u remaining);
          outcome = (case httpFetch net HEAD u headDelay of
                       Responded r \<Rightarrow>
                         if resp_status r = 405 \<or> resp_status r = 501 then fallback
                         else Responded r
                     | Rejected headError \<Rightarrow> fallback)
      in case outcome of
           Responded response \<Rightarrow>
             \<lparr>cr_url = u,
              cr_accessible = response_ok (resp_status response),
              cr_statusCode = Some (resp_status response),
              cr_statusText = Some (resp_statusText response),
              cr_contentType = (if truthy (resp_contentType response)
                                then resp_contentType response else None),
              cr_contentLength = (if truthy (resp_contentLength response)
                                  then resp_contentLength response else None),
              cr_error = None,
              cr_redirected = Some (resp_redirected response),
              cr_finalUrl = (if resp_redirected response then Some (resp_url response) else None)\<rparr>
         | Rejected e \<Rightarrow> inaccessible u (classifyError e))"

datatype Payload =
    ErrorBody string
  | ResultBody CheckUrlResponse
  | ResultsBody "CheckUrlResponse list"

record HttpResponse =
  http_status :: nat
  http_body :: Payload

text \<open>
  A request body: one that \<open>request.json()\<close> or the destructuring rejects (with the
  error's message), or an object whose \<open>urls\<close> (an array, when it is one) and
  \<open>timeout\<close> may be absent.
\<close>

datatype PutBody = PutMalformed string | PutBody "string list option" "nat option"

datatype PostBody = PostMalformed | PostBody "string option" "nat option"

text \<open>
  The handlers return the response together with the URLs they handed to
  \<open>checkUrlStatus\<close>, in order: the probes the request caused.
\<close>

definition POST :: "Network \<Rightarrow> PostBody \<Rightarrow> HttpResponse \<times> string list" where
  "POST net body =
     (case body of
        PostMalformed \<Rightarrow>
          (\<lparr>http_status = 500, http_body = ErrorBody ''Internal server error''\<rparr>, [])
      | PostBody u tmo_opt \<Rightarrow>
          (let tmo = (case tmo_opt of None \<Rightarrow> 3000 | Some t \<Rightarrow> t)
           in case u of
                None \<Rightarrow> (\<lparr>http_status = 400, http_body = ErrorBody ''URL is required''\<rparr>, [])
              | Some v \<Rightarrow>
                  if v = []
                  then (\<lparr>http_status = 400, http_body = ErrorBody ''URL is required''\<rparr>, [])
                  else if \<not> validUrl net v
                  then (\<lparr>http_status = 200,
                         http_body = ResultBody (inaccessible v ''Invalid URL format'')\<rparr>, [])
                  else (\<lparr>http_status = 200,
                         http_body = ResultBody (checkUrlStatus_route net v tmo)\<rparr>, [v])))"

definition PUT :: "Network \<Rightarrow> PutBody \<Rightarrow> HttpResponse \<times> string list" where
  "PUT net body =
     (case body of
        PutMalformed msg \<Rightarrow> (\<lparr>http_status = 500, http_body = ErrorBody msg\<rparr>, [])
      | PutBody urls_opt tmo_opt \<Rightarrow>
          (let tmo = (case tmo_opt of None \<Rightarrow> 3000 | Some t \<Rightarrow> t)
           in case urls_opt of
                None \<Rightarrow>
                  (\<lparr>http_status = 400, http_body = ErrorBody ''URLs array is required''\<rparr>, [])
              | Some urls \<Rightarrow>
                  if length urls = 0
                  then (\<lparr>http_status = 200, http_body = ResultsBody []\<rparr>, [])
                  else
                    let maxBatchSize = 50 :: nat
                    in if length urls > maxBatchSize
                       then (\<lparr>http_status = 400,
                              http_body = ErrorBody (''Maximum batch size is ''
                                            @ show_nat maxBatchSize @ '' URLs'')\<rparr>, [])
                       else (\<lparr>http_status = 200,
                              http_body = ResultsBody
                                (map (\<lambda>u. checkUrlStatus_route net u tmo) urls)\<rparr>, urls)))"

subsection \<open>The client\<close>

text \<open>
  The client reaches the route with \<open>fetch\<close>; \<open>apiError\<close> is the message of the
  rejection when that request itself fails. Every failure is caught and becomes an
  inaccessible result. A 2xx answer of the route always carries a result (POST) or a
  list of results (PUT), so the last branch of each \<open>case\<close> below is never taken.
\<close>

definition checkUrlStatus :: "Network \<Rightarrow> string \<Rightarrow> nat \<Rightarrow> CheckUrlResponse" where
  "checkUrlStatus net u tmo =
     (case apiError net of
        Some msg \<Rightarrow> inaccessible u msg
      | None \<Rightarrow>
          (let response = fst (POST net (PostBody (Some u) (Some tmo)))
           in if \<not> response_ok (http_status response)
              then inaccessible u (''API error: '' @ show_nat (http_status response))
              else (case http_body response of
                      ResultBody r \<Rightarrow> r
                    | _ \<Rightarrow> inaccessible u ''Unknown error'')))"

definition checkUrlStatusBatch :: "Network \<Rightarrow> string list \<Rightarrow> nat \<Rightarrow> CheckUrlResponse list" where
  "checkUrlStatusBatch net urls tmo =
     (if length urls = 0 then []
      else (case apiError net of
              Some msg \<Rightarrow> map (\<lambda>u. inaccessible u msg) urls
            | None \<Rightarrow>
                (let response = fst (PUT net (PutBody (Some urls) (Some tmo)))
                 in if \<not> response_ok (http_status response)
                    then map (\<lambda>u. inaccessible u
                                (''API error: '' @ show_nat (http_status response))) urls
                    else (case http_body response of
                            ResultsBody results \<Rightarrow> results
                          | _ \<Rightarrow> map (\<lambda>u. inaccessible u ''Unknown error'') urls))))"

subsection \<open>The cache\<close>

text \<open>
  \<open>urlCache\<close> is a \<open>Map\<close> from URL to \<open>{ result, timestamp }\<close>: an association list in
  insertion order, \<open>set\<close> being \<open>AList.update\<close>. \<open>Date.now()\<close> is the argument \<open>now\<close>.
  The call returns its result, the cache it leaves and the URLs it probed, that is, the
  URLs for which it called \<open>checkUrlStatus\<close>.
\<close>

record CacheEntry =
  ce_result :: CheckUrlResponse
  ce_timestamp :: int

type_synonym UrlCache = "(string \<times> CacheEntry) list"

definition CACHE_TTL :: int where
  "CACHE_TTL = 5 * 60 * 1000"

record CachedCall =
  cc_result :: CheckUrlResponse
  cc_cache :: UrlCache
  cc_probes :: "string list"

definition checkUrlStatusCached ::
  "Network \<Rightarrow> string \<Rightarrow> nat \<Rightarrow> int \<Rightarrow> UrlCache \<Rightarrow> CachedCall" where
  "checkUrlStatusCached net u tmo now urlCache =
     (let miss =
            (let result = checkUrlStatus net u tmo;
                 cache1 = AList.update u \<lparr>ce_result = result, ce_timestamp = now\<rparr> urlCache;
                 cache2 = (if length cache1 > 1000
                           then (let cutoff = now - CACHE_TTL
                                 in filter (\<lambda>(k, v). \<not> ce_timestamp v < cutoff) cache1)
                           else cache1)
             in \<lparr>cc_result = result, cc_cache = cache2, cc_probes = [u]\<rparr>)
      in case map_of urlCache u of
           None \<Rightarrow> miss
         | Some cached \<Rightarrow>
             if now - ce_timestamp cached < CACHE_TTL
             then \<lparr>cc_result = ce_result cached, cc_cache = urlCache, cc_probes = []\<rparr>
             else miss)"

section \<open>Reachability metrics\<close>

text \<open>\<open>UrlCheckConfig\<close>; \<open>getUrlCheckConfig\<close> returns a copy of the current one.\<close>

record UrlCheckConfig =
  cfg_enabled :: bool
  cfg_timeout :: nat
  cfg_showProgress :: bool

definition DEFAULT_CONFIG :: UrlCheckConfig where
  "DEFAULT_CONFIG = \<lparr>cfg_enabled = True, cfg_timeout = 3000, cfg_showProgress = False\<rparr>"

text \<open>
  What an evaluation reads besides the graph: the network, the current URL check
  configuration and the loaded vocabularies.
\<close>

record Runtime =
  network :: Network
  currentConfig :: UrlCheckConfig
  vocabularies :: Vocabularies

definition getUrlCheckConfig :: "Runtime \<Rightarrow> UrlCheckConfig" where
  "getUrlCheckConfig rt = currentConfig rt"

text \<open>
  \<open>chunkArray\<close>: \<open>for (let i = 0; i < array.length; i += chunkSize)\<close>, pushing
  \<open>array.slice(i, i + chunkSize)\<close>. With \<open>chunkSize = 0\<close> the source's loop does not
  end; the model stops it there, and both callers pass 50.
\<close>

function chunkArray_from :: "nat \<Rightarrow> 'a list \<Rightarrow> nat \<Rightarrow> 'a list list" where
  "chunkArray_from i array chunkSize =
     (if i < length array \<and> 0 < chunkSize
      then take chunkSize (drop i array) # chunkArray_from (i + chunkSize) array chunkSize
      else [])"
  by pat_completeness auto
termination
  by (relation "measure (\<lambda>(i, array, chunkSize). length array - i)") auto

definition chunkArray :: "'a list \<Rightarrow> nat \<Rightarrow> 'a list list" where
  "chunkArray array chunkSize = chunkArray_from 0 array chunkSize"

text \<open>
  The loop that collects the URLs to check: the first value of the property, when it is
  not empty and starts with \<open>http://\<close> or \<open>https://\<close>.
\<close>

fun collectUrls :: "(string \<Rightarrow> string option) \<Rightarrow> string list \<Rightarrow> string list" where
  "collectUrls getUrl [] = []"
| "collectUrls getUrl (distribution # rest) =
     (case getUrl distribution of
        None \<Rightarrow> collectUrls getUrl rest
      | Some u \<Rightarrow>
          if u \<noteq> [] \<and> (startsWith u ''http://'' \<or> startsWith u ''https://'')
          then u # collectUrls getUrl rest
          else collectUrls getUrl rest)"

text \<open>\<open>new Map(allResults.map(r => [r.url, r]))\<close>: a later result replaces an earlier one.\<close>

definition resultMap_of :: "CheckUrlResponse list \<Rightarrow> (string \<times> CheckUrlResponse) list" where
  "resultMap_of allResults = fold (\<lambda>r m. AList.update (cr_url r) r m) allResults []"

text \<open>\<open>resultMap.get(url)?.accessible\<close>.\<close>

definition reportedAccessible :: "(string \<times> CheckUrlResponse) list \<Rightarrow> string \<Rightarrow> bool" where
  "reportedAccessible resultMap u =
     (case map_of resultMap u of None \<Rightarrow> False | Some result \<Rightarrow> cr_accessible result)"

definition evaluateAccessURLStatus :: "Runtime \<Rightarrow> Store \<Rightarrow> Eval" where
  "evaluateAccessURLStatus rt st =
     (let distributions = getSubjectsByType st (NS_dcat @ ''Distribution'')
      in if length distributions = 0
         then \<lparr>ev_value = 0, ev_passed = False,
               ev_details = formatMetricDetail ''metricDetails.noDistributionsFound'' None\<rparr>
         else
           let urlsToCheck =
                 collectUrls (\<lambda>dist. getObjectValue st dist (NS_dcat @ ''accessURL'')) distributions
           in if length urlsToCheck = 0
              then \<lparr>ev_value = 0, ev_passed = False,
                    ev_details =
                      formatMetricDetail ''metricDetails.noDistributionsWithAccessURL'' None\<rparr>
              else
                let config = getUrlCheckConfig rt
                in if \<not> cfg_enabled config
                   then
                     let percentage = (real (length urlsToCheck) / real (length distributions)) * 100
                     in \<lparr>ev_value = percentage, ev_passed = (length urlsToCheck > 0),
                          ev_details = formatMetricDetail
                            ''metricDetails.distributionsHaveAccessURLNotChecked''
                            (Some [(''count'', PNum (length urlsToCheck)),
                                   (''total'', PNum (length distributions))])\<rparr>
                   else
                     let urlChunks = chunkArray urlsToCheck 50;
                         allResults = concat (map (\<lambda>chunk.
                             checkUrlStatusBatch (network rt) chunk (cfg_timeout config)) urlChunks);
                         resultMap = resultMap_of allResults;
                         accessibleCount = countIf (reportedAccessible resultMap) urlsToCheck 0;
                         percentage = (real accessibleCount / real (length distributions)) * 100
                     in \<lparr>ev_value = percentage, ev_passed = (accessibleCount > 0),
                          ev_details = formatMetricDetail
                            ''metricDetails.distributionsHaveAccessURL''
                            (Some [(''count'', PNum accessibleCount),
                                   (''total'', PNum (length distributions))])\<rparr>)"

definition evaluateDownloadURLStatus :: "Runtime \<Rightarrow> Store \<Rightarrow> Eval" where
  "evaluateDownloadURLStatus rt st =
     (let distributions = getSubjectsByType st (NS_dcat @ ''Distribution'')
      in if length distributions = 0
         then \<lparr>ev_value = 0, ev_passed = False,
               ev_details = formatMetricDetail ''metricDetails.noDistributionsFound'' None\<rparr>
         else
           let urlsToCheck =
                 collectUrls (\<lambda>dist. getObjectValue st dist (NS_dcat @ ''downloadURL'')) distributions
           in if length urlsToCheck = 0
              then \<lparr>ev_value = 0, ev_passed = False,
                    ev_details =
                      formatMetricDetail ''metricDetails.noDistributionsWithDownloadURL'' None\<rparr>
              else
                let config = getUrlCheckConfig rt
                in if \<not> cfg_enabled config
                   then
                     let percentage = (real (length urlsToCheck) / real (length distributions)) * 100
                     in \<lparr>ev_value = percentage, ev_passed = (length urlsToCheck > 0),
                          ev_details = formatMetricDetail
                            ''metricDetails.distributionsHaveDownloadURL''
                            (Some [(''count'', PNum (length urlsToCheck)),
                                   (''total'', PNum (length distributions))])\<rparr>
                   else
                     let urlChunks = chunkArray urlsToCheck 50;
                         allResults = concat (map (\<lambda>chunk.
                             checkUrlStatusBatch (network rt) chunk (cfg_timeout config)) urlChunks);
                         resultMap = resultMap_of allResults;
                         accessibleCount = countIf (reportedAccessible resultMap) urlsToCheck 0;
                         percentage = (real accessibleCount / real (length urlsToCheck)) * 100
                     in \<lparr>ev_value = percentage, ev_passed = (accessibleCount > 0),
                          ev_details = formatMetricDetail
                            ''metricDetails.downloadURLsAccessible''
                            (Some [(''count'', PNum accessibleCount),
                                   (''total'', PNum (length urlsToCheck))])\<rparr>)"

section \<open>The metric evaluator\<close>

record MetricConfig =
  mc_id :: string
  mc_weight :: real
  mc_property :: string

record MetricResult =
  mr_id :: string
  mr_name :: string
  mr_value :: real
  mr_weight :: real
  mr_passed :: bool
  mr_details :: Detail

record DatasetStatistics =
  datasetsCount :: nat
  distributionsCount :: nat
  dataServicesCount :: nat
  keywordsCount :: nat
  licensesCount :: nat
  accessRightsCount :: nat
  contactPointsCount :: nat
  spatialCount :: nat
  temporalCount :: nat

text \<open>The \<open>switch (id)\<close> of \<open>evaluateMetric\<close>, case by case in the source's order.\<close>

definition evaluateById :: "Runtime \<Rightarrow> string \<Rightarrow> Store \<Rightarrow> Eval" where
  "evaluateById rt i st =
     (if i = ''dcat_keyword'' then evaluateKeywordAvailability st
      else if i = ''dcat_theme'' then evaluateThemeAvailability st
      else if i = ''dct_spatial'' then evaluateSpatialAvailability st
      else if i = ''dct_temporal'' then evaluateTemporalAvailability st
      else if i = ''dcat_access_url_status'' then evaluateAccessURLStatus rt st
      else if i = ''dcat_download_url'' then evaluateDownloadURLAvailability st
      else if i = ''dcat_download_url_status'' then evaluateDownloadURLStatus rt st
      else if i = ''dct_format'' then evaluateFormatAvailability st
      else if i = ''dcat_media_type'' then evaluateMediaTypeAvailability st
      else if i = ''dct_format_vocabulary'' \<or> i = ''dcat_media_type_vocabulary''
            \<or> i = ''dct_format_vocabulary_nti_risp''
            \<or> i = ''dcat_media_type_vocabulary_nti_risp''
      then evaluateFormatMediaTypeVocabulary st
      else if i = ''dct_format_nonproprietary''
      then evaluateNonProprietaryFormat (vocabularies rt) st
      else if i = ''dct_format_machine_readable''
      then evaluateMachineReadableFormat (vocabularies rt) st
      else if i = ''dcat_ap_compliance'' \<or> i = ''dcat_ap_es_compliance''
            \<or> i = ''nti_risp_compliance''
      then \<lparr>ev_value = 100, ev_passed = True,
            ev_details = formatMetricDetail ''metricDetails.shaclValidationPassed'' None\<rparr>
      else if i = ''dct_license'' \<or> i = ''dct_license_nti_risp''
      then evaluateLicenseAvailability st
      else if i = ''dct_license_vocabulary'' then evaluateLicenseVocabulary (vocabularies rt) st
      else if i = ''dct_access_rights'' then evaluateAccessRightsAvailability st
      else if i = ''dct_access_rights_vocabulary''
      then evaluateAccessRightsVocabulary (vocabularies rt) st
      else if i = ''dcat_contact_point'' then evaluateContactPointAvailability st
      else if i = ''dct_publisher'' then evaluatePublisherAvailability st
      else if i = ''dcat_byte_size'' then evaluateByteSizeAvailability st
      else if i = ''dct_issued'' then evaluateIssuedDateAvailability st
      else if i = ''dct_modified'' then evaluateModifiedDateAvailability st
      else if i = ''dct_rights'' then evaluateRightsAvailability st
      else \<lparr>ev_value = 0, ev_passed = False,
            ev_details = formatMetricDetail ''metricDetails.metricNotImplemented''
              (Some [(''id'', PStr i)])\<rparr>)"

definition evaluateMetric ::
  "Runtime \<Rightarrow> MetricConfig \<Rightarrow> Store \<Rightarrow> DatasetStatistics \<Rightarrow> string \<Rightarrow> MetricResult" where
  "evaluateMetric rt metricConfig st statistics profile =
     (let e = evaluateById rt (mc_id metricConfig) st
      in \<lparr>mr_id = mc_id metricConfig,
          mr_name = toUpperCase (replaceUnderscores (mc_id metricConfig)),
          mr_value = ev_value e,
          mr_weight = mc_weight metricConfig,
          mr_passed = ev_passed e,
          mr_details = ev_details e\<rparr>)"

text \<open>
  The case labels of the switch: the metric ids that have a strategy, grouped by the
  type of entity their evaluator counts, and the static compliance markers.
\<close>

definition datasetMetricIds :: "string list" where
  "datasetMetricIds =
     [''dcat_keyword'', ''dcat_theme'', ''dct_spatial'', ''dct_temporal'',
      ''dct_access_rights'', ''dct_access_rights_vocabulary'', ''dcat_contact_point'',
      ''dct_publisher'', ''dct_issued'', ''dct_modified'']"

definition distributionMetricIds :: "string list" where
  "distributionMetricIds =
     [''dcat_access_url_status'', ''dcat_download_url'', ''dcat_download_url_status'',
      ''dct_format'', ''dcat_media_type'', ''dct_format_vocabulary'',
      ''dcat_media_type_vocabulary'', ''dct_format_vocabulary_nti_risp'',
      ''dcat_media_type_vocabulary_nti_risp'', ''dct_format_nonproprietary'',
      ''dct_format_machine_readable'', ''dct_license'', ''dct_license_nti_risp'',
      ''dct_license_vocabulary'', ''dcat_byte_size'', ''dct_rights'']"

definition complianceMetricIds :: "string list" where
  "complianceMetricIds = [''dcat_ap_compliance'', ''dcat_ap_es_compliance'', ''nti_risp_compliance'']"

definition knownMetricIds :: "string list" where
  "knownMetricIds = datasetMetricIds @ distributionMetricIds @ complianceMetricIds"

section \<open>Configuration\<close>

text \<open>
  The parsed \<open>mqa-config.json\<close>, with the parts the assessment reads. A JSON object
  whose keys the source enumerates or looks up by name is an association list (a parsed
  object has each key once).
\<close>

record MQADimension =
  dim_maxScore :: real

record MQAProfileVersion =
  pv_name :: string
  pv_maxScore :: real
  pv_icon :: string
  pv_url :: string
  pv_sampleUrl :: string
  pv_shaclFiles :: "string list"
  pv_dimensions :: "(string \<times> MQADimension) list"

record MQAProfile =
  versions :: "(string \<times> MQAProfileVersion) list"
  defaultVersion :: string

record MQAConfig =
  profiles :: "(string \<times> MQAProfile) list"
  profile_metrics :: "(string \<times> (string \<times> MetricConfig list) list) list"

definition getProfileConfig :: "MQAConfig \<Rightarrow> string \<Rightarrow> string option \<Rightarrow> MQAProfileVersion option" where
  "getProfileConfig config profileId version =
     (case map_of (profiles config) profileId of
        None \<Rightarrow> None
      | Some profile \<Rightarrow>
          (let targetVersion = (case version of
                                  None \<Rightarrow> defaultVersion profile
                                | Some v \<Rightarrow> if v \<noteq> [] then v else defaultVersion profile)
           in map_of (versions profile) targetVersion))"

definition getProfileMetrics :: "MQAConfig \<Rightarrow> string \<Rightarrow> string \<Rightarrow> MetricConfig list" where
  "getProfileMetrics config profileId dimension =
     (case map_of (profile_metrics config) profileId of
        None \<Rightarrow> []
      | Some profileMetrics \<Rightarrow>
          (case map_of profileMetrics dimension of None \<Rightarrow> [] | Some ms \<Rightarrow> ms))"

definition getProfileDimensions ::
  "MQAConfig \<Rightarrow> string \<Rightarrow> string option \<Rightarrow> (string \<times> MQADimension) list option" where
  "getProfileDimensions config profileId version =
     (case getProfileConfig config profileId version of
        None \<Rightarrow> None
      | Some profileConfig \<Rightarrow> Some (pv_dimensions profileConfig))"

definition getMaxScore :: "MQAConfig \<Rightarrow> string \<Rightarrow> string option \<Rightarrow> real" where
  "getMaxScore config profileId version =
     (case getProfileConfig config profileId version of
        None \<Rightarrow> 0
      | Some profileConfig \<Rightarrow> pv_maxScore profileConfig)"

text \<open>
  The interface \<open>MQAProfileVersion\<close> declares \<open>dimensions\<close> with exactly the five keys
  below; a configuration of that type has each of them.
\<close>

definition dimensionKeys :: "string list" where
  "dimensionKeys =
     [''findability'', ''accessibility'', ''interoperability'', ''reusability'', ''contextuality'']"

definition declaresFiveDimensions :: "(string \<times> MQADimension) list \<Rightarrow> bool" where
  "declaresFiveDimensions dc = list_all (\<lambda>k. k \<in> set (map fst dc)) dimensionKeys"

section \<open>The quality assessment\<close>

record QualityDimension =
  qd_name :: string
  qd_score :: real
  qd_weight :: real
  qd_metrics :: "MetricResult list"

record Dimensions =
  findability :: "QualityDimension option"
  accessibility :: "QualityDimension option"
  interoperability :: "QualityDimension option"
  reusability :: "QualityDimension option"
  contextuality :: "QualityDimension option"

record QualityAssessment =
  qa_overallScore :: int
  qa_maxScore :: real
  qa_dimensions :: Dimensions
  qa_timestamp :: int

datatype AssessmentError = ProfileNotFound string

definition calculateStatistics :: "Store \<Rightarrow> DatasetStatistics" where
  "calculateStatistics st =
     (let dcat = ''http://www.w3.org/ns/dcat#'';
          dct = ''http://purl.org/dc/terms/'';
          datasets = getSubjectsByType st (dcat @ ''Dataset'');
          distributions = getSubjectsByType st (dcat @ ''Distribution'');
          dataServices = getSubjectsByType st (dcat @ ''DataService'')
      in \<lparr>datasetsCount = length datasets,
          distributionsCount = length distributions,
          dataServicesCount = length dataServices,
          keywordsCount = sum_list (map (\<lambda>d. length (getObjects st d (dcat @ ''keyword''))) datasets),
          licensesCount = countIf (\<lambda>d. length (getObjects st d (dct @ ''license'')) > 0) datasets 0,
          accessRightsCount =
            countIf (\<lambda>d. length (getObjects st d (dct @ ''accessRights'')) > 0) datasets 0,
          contactPointsCount =
            sum_list (map (\<lambda>d. length (getObjects st d (dcat @ ''contactPoint''))) datasets),
          spatialCount = countIf (\<lambda>d. length (getObjects st d (dct @ ''spatial'')) > 0) datasets 0,
          temporalCount =
            countIf (\<lambda>d. length (getObjects st d (dct @ ''temporal'')) > 0) datasets 0\<rparr>)"

text \<open>
  The loop of \<open>calculateDimension\<close> over the configured metrics: it pushes each result
  and accumulates \<open>weightedSum\<close> and \<open>totalWeight\<close>.
\<close>

fun dimensionLoop ::
  "(MetricConfig \<Rightarrow> MetricResult) \<Rightarrow> MetricConfig list
     \<Rightarrow> MetricResult list \<times> real \<times> real \<Rightarrow> MetricResult list \<times> real \<times> real" where
  "dimensionLoop ev [] acc = acc"
| "dimensionLoop ev (metricConfig # rest) (metrics, weightedSum, totalWeight) =
     (let metricResult = ev metricConfig
      in dimensionLoop ev rest
           (metrics @ [metricResult],
            weightedSum + mr_value metricResult * mc_weight metricConfig,
            totalWeight + mc_weight metricConfig))"

text \<open>\<open>dimensionName.charAt(0).toUpperCase() + dimensionName.slice(1)\<close>.\<close>

definition capitalize :: "string \<Rightarrow> string" where
  "capitalize s = (case s of [] \<Rightarrow> [] | c # cs \<Rightarrow> toUpperChar c # cs)"

text \<open>\<open>dimensionsConfig?.[dimensionName]?.maxScore || 0\<close>, read from the profile's dimensions.\<close>

definition dimensionMaxScoreOf :: "MQAConfig \<Rightarrow> string \<Rightarrow> string \<Rightarrow> real" where
  "dimensionMaxScoreOf config profile dimensionName =
     (case getProfileDimensions config profile None of
        None \<Rightarrow> 0
      | Some dimensionsConfig \<Rightarrow>
          (case map_of dimensionsConfig dimensionName of
             None \<Rightarrow> 0
           | Some d \<Rightarrow> dim_maxScore d))"

text \<open>
  \<open>calculateDimension\<close>, in exact arithmetic: the weighted average of the metric
  values, as a share of the dimension's maximum score.
\<close>

definition calculateDimension ::
  "MQAConfig \<Rightarrow> Runtime \<Rightarrow> Store \<Rightarrow> DatasetStatistics \<Rightarrow> string \<Rightarrow> string \<Rightarrow> QualityDimension" where
  "calculateDimension config rt st statistics profile dimensionName =
     (let metricsConfig = getProfileMetrics config profile dimensionName;
          dimensionMaxScore = dimensionMaxScoreOf config profile dimensionName
      in case dimensionLoop (\<lambda>metricConfig. evaluateMetric rt metricConfig st statistics profile)
                metricsConfig ([], 0, 0) of
           (metrics, weightedSum, totalWeight) \<Rightarrow>
             (let dimensionPercentage = (if totalWeight > 0 then weightedSum / totalWeight else 0);
                  actualScore = (dimensionPercentage / 100) * dimensionMaxScore
              in \<lparr>qd_name = capitalize dimensionName,
                  qd_score = actualScore,
                  qd_weight = dimensionMaxScore,
                  qd_metrics = metrics\<rparr>))"

text \<open>\<open>Math.round\<close>: the nearest integer, a half rounding up.\<close>

definition Math_round :: "real \<Rightarrow> int" where
  "Math_round x = \<lfloor>x + 1 / 2\<rfloor>"

text \<open>
  \<open>calculateQuality\<close>. The object \<open>dimensions\<close> is filled key by key; a key that was
  never assigned reads as \<open>undefined\<close>, here \<open>None\<close>. \<open>Date.now()\<close> is the argument
  \<open>now\<close>.
\<close>

definition calculateQuality ::
  "MQAConfig \<Rightarrow> Runtime \<Rightarrow> Store \<Rightarrow> string \<Rightarrow> int \<Rightarrow> AssessmentError + QualityAssessment" where
  "calculateQuality config rt st profile now =
     (let statistics = calculateStatistics st;
          maxScore = getMaxScore config profile None
      in case getProfileDimensions config profile None of
           None \<Rightarrow> Inl (ProfileNotFound profile)
         | Some dimensionsConfig \<Rightarrow>
             (let dimensionNames = map fst dimensionsConfig;
                  dims = fold (\<lambda>dimName m.
                             AList.update dimName
                               (calculateDimension config rt st statistics profile dimName) m)
                           dimensionNames [];
                  totalScore = fold (\<lambda>dimName total.
                                  (case map_of dims dimName of
                                     None \<Rightarrow> total
                                   | Some dimension \<Rightarrow> total + qd_score dimension))
                                dimensionNames 0;
                  outputDimensions =
                    \<lparr>findability = map_of dims ''findability'',
                     accessibility = map_of dims ''accessibility'',
                     interoperability = map_of dims ''interoperability'',
                     reusability = map_of dims ''reusability'',
                     contextuality = map_of dims ''contextuality''\<rparr>
              in Inr \<lparr>qa_overallScore = Math_round totalScore,
                      qa_maxScore = maxScore,
                      qa_dimensions = outputDimensions,
                      qa_timestamp = now\<rparr>))"

section \<open>The dimension score in binary64 arithmetic\<close>

text \<open>
  A JavaScript number is an IEEE 754 binary64 value, and every arithmetic operation
  returns the exact result rounded to the nearest such value, a tie going to the even
  significand. \<open>rne\<close> rounds a real to the nearest integer in that way. \<open>binary64\<close>
  rounds a real to 53 significant bits: it scales the number by the power of two that
  brings its magnitude into the interval from \<open>2^52\<close> to \<open>2^53\<close>, rounds to an integer
  and scales back. This is the rounding of the runtime on the normal range, which the
  scores and weights of an assessment do not leave (no overflow, no subnormal number).
\<close>

definition rne :: "real \<Rightarrow> int" where
  "rne y =
     (let f = \<lfloor>y\<rfloor>; d = y - of_int f
      in if d < 1 / 2 then f
         else if 1 / 2 < d then f + 1
         else if even f then f else f + 1)"

definition binary64 :: "real \<Rightarrow> real" where
  "binary64 x =
     (if x = 0 then 0
      else let e = \<lfloor>log 2 \<bar>x\<bar>\<rfloor> - 52
           in of_int (rne (x / 2 powr (of_int e))) * 2 powr (of_int e))"

text \<open>The operators \<open>+\<close>, \<open>*\<close> and \<open>/\<close> of the runtime on two binary64 values.\<close>

definition fl_add :: "real \<Rightarrow> real \<Rightarrow> real" where
  "fl_add x y = binary64 (x + y)"

definition fl_mul :: "real \<Rightarrow> real \<Rightarrow> real" where
  "fl_mul x y = binary64 (x * y)"

definition fl_div :: "real \<Rightarrow> real \<Rightarrow> real" where
  "fl_div x y = binary64 (x / y)"

text \<open>
  \<open>calculateDimension\<close> once more, statement by statement, with each operation on
  \<open>weightedSum\<close>, \<open>totalWeight\<close>, \<open>dimensionPercentage\<close> and \<open>actualScore\<close> rounded as
  the runtime rounds it.
\<close>

fun dimensionLoop_binary64 ::
  "(MetricConfig \<Rightarrow> MetricResult) \<Rightarrow> MetricConfig list
     \<Rightarrow> MetricResult list \<times> real \<times> real \<Rightarrow> MetricResult list \<times> real \<times> real" where
  "dimensionLoop_binary64 ev [] acc = acc"
| "dimensionLoop_binary64 ev (metricConfig # rest) (metrics, weightedSum, totalWeight) =
     (let metricResult = ev metricConfig
      in dimensionLoop_binary64 ev rest
           (metrics @ [metricResult],
            fl_add weightedSum (fl_mul (mr_value metricResult) (mc_weight metricConfig)),
            fl_add totalWeight (mc_weight metricConfig)))"

definition calculateDimension_binary64 ::
  "MQAConfig \<Rightarrow> Runtime \<Rightarrow> Store \<Rightarrow> DatasetStatistics \<Rightarrow> string \<Rightarrow> string \<Rightarrow> QualityDimension" where
  "calculateDimension_binary64 config rt st statistics profile dimensionName =
     (let metricsConfig = getProfileMetrics config profile dimensionName;
          dimensionMaxScore = dimensionMaxScoreOf config profile dimensionName
      in case dimensionLoop_binary64
                (\<lambda>metricConfig. evaluateMetric rt metricConfig st statistics profile)
                metricsConfig ([], 0, 0) of
           (metrics, weightedSum, totalWeight) \<Rightarrow>
             (let dimensionPercentage =
                    (if totalWeight > 0 then fl_div weightedSum totalWeight else 0);
                  actualScore = fl_mul (fl_div dimensionPercentage 100) dimensionMaxScore
              in \<lparr>qd_name = capitalize dimensionName,
                  qd_score = actualScore,
                  qd_weight = dimensionMaxScore,
                  qd_metrics = metrics\<rparr>))"

section \<open>Notions used to state the properties\<close>



text \<open>A term that is an IRI, and is found again from its \<open>value\<close>.\<close>

definition isIri :: "Term \<Rightarrow> bool" where
  "isIri t = (case t of NamedNode iri \<Rightarrow> \<not> startsWith iri ''_:'' | _ \<Rightarrow> False)"

section \<open>Example inputs\<close>

text \<open>A fact about an IRI subject, and the fact that an IRI subject has a type.\<close>

definition fact :: "string \<Rightarrow> string \<Rightarrow> Term \<Rightarrow> Quad" where
  "fact s p ob = (NamedNode s, NamedNode p, ob)"

definition typed :: "string \<Rightarrow> string \<Rightarrow> Quad" where
  "typed s t = (NamedNode s, NamedNode (NS_rdf @ ''type''), NamedNode t)"

text \<open>A catalogue of ten datasets, four of which carry keywords, and one distribution.\<close>

definition exampleStore :: Store where
  "exampleStore =
     [typed ''d0'' (NS_dcat @ ''Dataset''),
      fact ''d0'' (NS_dcat @ ''keyword'') (Literal ''water'' ''''),
      fact ''d0'' (NS_dcat @ ''keyword'') (Literal ''rivers'' ''''),
      typed ''d1'' (NS_dcat @ ''Dataset''),
      typed ''d2'' (NS_dcat @ ''Dataset''),
      fact ''d2'' (NS_dcat @ ''keyword'') (Literal ''air'' ''''),
      typed ''d3'' (NS_dcat @ ''Dataset''),
      typed ''d4'' (NS_dcat @ ''Dataset''),
      fact ''d4'' (NS_dcat @ ''keyword'') (Literal ''soil'' ''''),
      typed ''d5'' (NS_dcat @ ''Dataset''),
      typed ''d6'' (NS_dcat @ ''Dataset''),
      fact ''d6'' (NS_dct @ ''title'') (Literal ''no keyword here'' ''''),
      typed ''d7'' (NS_dcat @ ''Dataset''),
      fact ''d7'' (NS_dcat @ ''keyword'') (Literal ''noise'' ''''),
      typed ''d8'' (NS_dcat @ ''Dataset''),
      typed ''d9'' (NS_dcat @ ''Dataset''),
      typed ''x1'' (NS_dcat @ ''Distribution''),
      fact ''x1'' (NS_dcat @ ''keyword'') (Literal ''not a dataset'' '''')]"

text \<open>
  The graph \<open>[] a dcat:Dataset ; dcat:keyword "water"\<close>: one dataset, a blank node, with
  one keyword.
\<close>

definition blankNodeStore :: Store where
  "blankNodeStore =
     [(BlankNode ''b0'', NamedNode (NS_rdf @ ''type''), NamedNode (NS_dcat @ ''Dataset'')),
      (BlankNode ''b0'', NamedNode (NS_dcat @ ''keyword''), Literal ''water'' '''')]"


text \<open>A network on which one URL answers 200 and every other host is unknown.\<close>

definition exampleNetwork :: Network where
  "exampleNetwork =
     \<lparr>httpFetch = (\<lambda>m u t.
         if u = ''https://example.org/a.csv''
         then Responded \<lparr>resp_status = 200, resp_statusText = ''OK'',
                 resp_contentType = Some ''text/csv'', resp_contentLength = Some ''42'',
                 resp_redirected = False, resp_url = u\<rparr>
         else Rejected \<lparr>err_name = ''TypeError'', err_causeCode = Some ''ENOTFOUND'',
                 err_message = Some ''fetch failed''\<rparr>),
      headDuration = (\<lambda>u t. 120),
      validUrl = (\<lambda>u. True),
      apiError = None\<rparr>"

definition exampleVocabularies :: Vocabularies where
  "exampleVocabularies =
     \<lparr>KNOWN_LICENSES = [''http://publications.europa.eu/resource/authority/licence/CC_BY_4_0''],
      KNOWN_ACCESS_RIGHTS = [''http://publications.europa.eu/resource/authority/access-right/PUBLIC''],
      MACHINE_READABLE_FORMATS = [''text/csv'', ''application/json''],
      NON_PROPRIETARY_FORMATS = [''text/csv'']\<rparr>"

definition exampleRuntime :: Runtime where
  "exampleRuntime =
     \<lparr>network = exampleNetwork, currentConfig = DEFAULT_CONFIG,
      vocabularies = exampleVocabularies\<rparr>"


text \<open>A configuration with one profile, its five dimensions and some of its metrics.\<close>

definition exampleConfig :: MQAConfig where
  "exampleConfig =
     \<lparr>profiles =
        [(''dcat_ap'',
          \<lparr>versions =
             [(''3.0.0'',
               \<lparr>pv_name = ''DCAT-AP'', pv_maxScore = 405, pv_icon = ''img/icons/esp.svg'',
                pv_url = ''https://semiceu.github.io/DCAT-AP/releases/3.0.0/'',
                pv_sampleUrl = ''https://example.org/sample.ttl'',
                pv_shaclFiles = [''https://example.org/shapes.ttl''],
                pv_dimensions =
                  [(''findability'', \<lparr>dim_maxScore = 100\<rparr>),
                   (''accessibility'', \<lparr>dim_maxScore = 100\<rparr>),
                   (''interoperability'', \<lparr>dim_maxScore = 110\<rparr>),
                   (''reusability'', \<lparr>dim_maxScore = 75\<rparr>),
                   (''contextuality'', \<lparr>dim_maxScore = 20\<rparr>)]\<rparr>)],
           defaultVersion = ''3.0.0''\<rparr>)],
      profile_metrics =
        [(''dcat_ap'',
          [(''findability'',
            [\<lparr>mc_id = ''dcat_keyword'', mc_weight = 30, mc_property = ''dcat:keyword''\<rparr>,
             \<lparr>mc_id = ''dcat_theme'', mc_weight = 30, mc_property = ''dcat:theme''\<rparr>]),
           (''accessibility'',
            [\<lparr>mc_id = ''dcat_download_url'', mc_weight = 20, mc_property = ''dcat:downloadURL''\<rparr>]),
           (''interoperability'',
            [\<lparr>mc_id = ''dcat_ap_compliance'', mc_weight = 30, mc_property = ''shacl''\<rparr>]),
           (''reusability'',
            [\<lparr>mc_id = ''dct_license'', mc_weight = 20, mc_property = ''dct:license''\<rparr>]),
           (''contextuality'',
            [\<lparr>mc_id = ''dct_rights'', mc_weight = 5, mc_property = ''dct:rights''\<rparr>])])]\<rparr>"


text \<open>A cache that holds, for the URL that answers, an older result saying it timed out.\<close>

definition exampleCache :: UrlCache where
  "exampleCache =
     [(''https://example.org/a.csv'',
       \<lparr>ce_result = inaccessible ''https://example.org/a.csv'' ''Request timeout'',
        ce_timestamp = 1762128000000\<rparr>)]"

text \<open>
  A configuration whose interoperability dimension, of maximum score 100, has two
  compliance metrics with the weights that the JSON numbers \<open>0.1\<close> and \<open>0.7\<close> parse to.
\<close>

definition roundingConfig :: MQAConfig where
  "roundingConfig =
     \<lparr>profiles =
        [(''dcat_ap'',
          \<lparr>versions =
             [(''3.0.0'',
               \<lparr>pv_name = ''DCAT-AP'', pv_maxScore = 405, pv_icon = ''img/icons/esp.svg'',
                pv_url = ''https://semiceu.github.io/DCAT-AP/releases/3.0.0/'',
                pv_sampleUrl = ''https://example.org/sample.ttl'',
                pv_shaclFiles = [''https://example.org/shapes.ttl''],
                pv_dimensions =
                  [(''findability'', \<lparr>dim_maxScore = 100\<rparr>),
                   (''accessibility'', \<lparr>dim_maxScore = 100\<rparr>),
                   (''interoperability'', \<lparr>dim_maxScore = 100\<rparr>),
                   (''reusability'', \<lparr>dim_maxScore = 75\<rparr>),
                   (''contextuality'', \<lparr>dim_maxScore = 20\<rparr>)]\<rparr>)],
           defaultVersion = ''3.0.0''\<rparr>)],
      profile_metrics =
        [(''dcat_ap'',
          [(''interoperability'',
            [\<lparr>mc_id = ''dcat_ap_compliance'', mc_weight = binary64 (1 / 10),
              mc_property = ''shacl''\<rparr>,
             \<lparr>mc_id = ''dcat_ap_es_compliance'', mc_weight = binary64 (7 / 10),
              mc_property = ''shacl''\<rparr>])])]\<rparr>"

section \<open>Properties\<close>

declare show_nat.simps [simp del]
declare chunkArray_from.simps [simp del]

subsection \<open>Counting subjects\<close>

lemma countIf_filter: "countIf p xs c = c + length (filter p xs)"
  by (induction xs arbitrary: c) auto

lemma countIf_le: "countIf p xs 0 \<le> length xs"
  by (simp add: countIf_filter)

lemma firstOccurrences_distinct: "distinct (firstOccurrences xs)"
  by (simp add: firstOccurrences_def)

lemma firstOccurrences_set: "set (firstOccurrences xs) = set xs"
  by (simp add: firstOccurrences_def)

lemma store_terms_subject: "(s, p, ob) \<in> set st \<Longrightarrow> s \<in> set (store_terms st)"
  by (force simp: store_terms_def firstOccurrences_set)

lemma store_terms_object: "(s, p, ob) \<in> set st \<Longrightarrow> ob \<in> set (store_terms st)"
  by (force simp: store_terms_def firstOccurrences_set)

lemma store_getSubjects_distinct: "distinct (store_getSubjects st p ob)"
  by (simp add: store_getSubjects_def store_terms_def firstOccurrences_distinct)

lemma store_getSubjects_set: "set (store_getSubjects st p ob) = {s. (s, p, ob) \<in> set st}"
  using store_terms_subject by (auto simp: store_getSubjects_def)

lemma store_getObjects_set: "set (store_getObjects st s p) = {ob. (s, p, ob) \<in> set st}"
  using store_terms_object by (auto simp: store_getObjects_def)

lemma store_getQuads_nonempty:
  "(store_getQuads st s p \<noteq> []) = (\<exists>ob. (s, p, ob) \<in> set st)"
proof -
  have "(store_getObjects st s p \<noteq> []) = (set (store_getObjects st s p) \<noteq> {})"
    by simp
  also have "\<dots> = (\<exists>ob. (s, p, ob) \<in> set st)"
    unfolding store_getObjects_set by blast
  finally show ?thesis
    by (simp add: store_getQuads_def)
qed

lemma termOfId_value: "isIri t \<Longrightarrow> termOfId (term_value t) = t"
  by (cases t) (simp_all add: isIri_def termOfId_def)

lemma termOfId_namespaces:
  "termOfId (NS_dcat @ x) = NamedNode (NS_dcat @ x)"
  "termOfId (NS_dct @ x) = NamedNode (NS_dct @ x)"
  "termOfId ''http://www.w3.org/1999/02/22-rdf-syntax-ns#type'' = NamedNode (NS_rdf @ ''type'')"
  by (simp_all add: termOfId_def startsWith_def NS_dcat_def NS_dct_def NS_rdf_def)

lemma getSubjectsByType_eq:
  "getSubjectsByType st (NS_dcat @ x)
     = map term_value
         (store_getSubjects st (NamedNode (NS_rdf @ ''type'')) (NamedNode (NS_dcat @ x)))"
  by (simp add: getSubjectsByType_def namedNode_def termOfId_namespaces)

lemma card_subjectsOfType:
  "card {s. (s, p, ob) \<in> set st} = length (store_getSubjects st p ob)"
  unfolding store_getSubjects_set [symmetric]
  by (rule distinct_card [OF store_getSubjects_distinct])

lemma card_subjectsWith:
  "card {s \<in> {s. (s, p, ob) \<in> set st}. \<exists>x. (s, q, x) \<in> set st}
     = length (filter (\<lambda>s. store_getQuads st s q \<noteq> []) (store_getSubjects st p ob))"
proof -
  have eq: "{s \<in> {s. (s, p, ob) \<in> set st}. \<exists>x. (s, q, x) \<in> set st}
          = set (filter (\<lambda>s. store_getQuads st s q \<noteq> []) (store_getSubjects st p ob))"
  proof (rule set_eqI)
    fix x
    show "x \<in> {s \<in> {s. (s, p, ob) \<in> set st}. \<exists>x. (s, q, x) \<in> set st}
            \<longleftrightarrow> x \<in> set (filter (\<lambda>s. store_getQuads st s q \<noteq> []) (store_getSubjects st p ob))"
      by (simp add: store_getSubjects_set store_getQuads_nonempty)
  qed
  have d: "distinct (filter (\<lambda>s. store_getQuads st s q \<noteq> []) (store_getSubjects st p ob))"
    by (simp add: store_getSubjects_distinct)
  show ?thesis
    unfolding eq by (rule distinct_card [OF d])
qed

lemma countIf_values:
  assumes "\<forall>s\<in>set subjects. isIri s"
  shows "countIf (\<lambda>dataset. store_getQuads st (termOfId dataset) q \<noteq> [])
           (map term_value subjects) 0
         = length (filter (\<lambda>s. store_getQuads st s q \<noteq> []) subjects)"
proof -
  have "filter ((\<lambda>dataset. store_getQuads st (termOfId dataset) q \<noteq> []) \<circ> term_value) subjects
      = filter (\<lambda>s. store_getQuads st s q \<noteq> []) subjects"
    by (rule filter_cong [OF refl]) (simp add: termOfId_value assms)
  then show ?thesis
    by (simp add: countIf_filter filter_map)
qed

text \<open>
  On a graph whose datasets are all IRIs, the keyword metric is the proportion of
  datasets that have a keyword.
\<close>

lemma keyword_metric_on_iri_datasets:
  assumes some: "\<exists>s. (s, NamedNode (NS_rdf @ ''type''), NamedNode (NS_dcat @ ''Dataset'')) \<in> set st"
    and iris: "\<forall>s. (s, NamedNode (NS_rdf @ ''type''), NamedNode (NS_dcat @ ''Dataset'')) \<in> set st
                 \<longrightarrow> isIri s"
    and kw: "mc_id metricConfig = ''dcat_keyword''"
  shows "let datasets = {s. (s, NamedNode (NS_rdf @ ''type''), NamedNode (NS_dcat @ ''Dataset'')) \<in> set st};
             withKeyword = {s \<in> datasets. \<exists>ob. (s, NamedNode (NS_dcat @ ''keyword''), ob) \<in> set st};
             r = evaluateMetric rt metricConfig st statistics profile
         in mr_value r = 100 * real (card withKeyword) / real (card datasets)
            \<and> mr_passed r = (card withKeyword > 0)"
proof -
  let ?subs = "store_getSubjects st (NamedNode (NS_rdf @ ''type'')) (NamedNode (NS_dcat @ ''Dataset''))"
  let ?n = "length (filter (\<lambda>s. store_getQuads st s (NamedNode (NS_dcat @ ''keyword'')) \<noteq> []) ?subs)"
  from some have ne: "?subs \<noteq> []"
    using store_getSubjects_set [of st "NamedNode (NS_rdf @ ''type'')" "NamedNode (NS_dcat @ ''Dataset'')"]
    by (cases ?subs) auto
  have all: "\<forall>s\<in>set ?subs. isIri s"
    using iris by (simp add: store_getSubjects_set)
  have cnt: "countIf (\<lambda>dataset. store_getQuads st (termOfId dataset)
                 (termOfId (NS_dcat @ ''keyword'')) \<noteq> []) (map term_value ?subs) 0 = ?n"
    unfolding termOfId_namespaces by (rule countIf_values [OF all])
  have v: "mr_value (evaluateMetric rt metricConfig st statistics profile)
             = 100 * real ?n / real (length ?subs)"
    and p: "mr_passed (evaluateMetric rt metricConfig st statistics profile) = (?n > 0)"
    using ne kw
    by (simp_all add: evaluateMetric_def evaluateById_def evaluateKeywordAvailability_def
        Let_def getSubjectsByType_eq cnt zero_less_divide_iff)
  show ?thesis
    unfolding Let_def card_subjectsOfType card_subjectsWith using v p by simp
qed

lemmas store_eval_defs =
  getSubjectsByType_def getObjects_def getObjectValue_def store_getSubjects_def
  store_getObjects_def store_getQuads_def store_terms_def firstOccurrences_def
  namedNode_def termOfId_def startsWith_def fact_def typed_def
  NS_rdf_def NS_dcat_def NS_dct_def

lemma exampleStore_datasets:
  "getSubjectsByType exampleStore (NS_dcat @ ''Dataset'')
     = [''d0'', ''d1'', ''d2'', ''d3'', ''d4'', ''d5'', ''d6'', ''d7'', ''d8'', ''d9'']"
  by (simp add: exampleStore_def store_eval_defs)

lemma exampleStore_withKeyword:
  "filter (\<lambda>dataset. length (store_getQuads exampleStore (termOfId dataset)
       (termOfId (NS_dcat @ ''keyword''))) > 0)
     [''d0'', ''d1'', ''d2'', ''d3'', ''d4'', ''d5'', ''d6'', ''d7'', ''d8'', ''d9'']
     = [''d0'', ''d2'', ''d4'', ''d7'']"
  by (simp add: exampleStore_def store_eval_defs)


lemma blankNodeStore_datasets:
  "getSubjectsByType blankNodeStore (NS_dcat @ ''Dataset'') = [''b0'']"
  by (simp add: blankNodeStore_def store_eval_defs)

lemma blankNodeStore_keywords:
  "store_getQuads blankNodeStore (termOfId ''b0'') (termOfId (NS_dcat @ ''keyword'')) = []"
  by (simp add: blankNodeStore_def store_eval_defs)

subsection \<open>The keyword metric\<close>

text \<open>
  The scenario of ten datasets, all IRIs, of which four have a keyword: the value is 40
  and the metric passes.
\<close>

lemma keyword_metric_scenario:
  "mr_value (evaluateMetric exampleRuntime
       \<lparr>mc_id = ''dcat_keyword'', mc_weight = 30, mc_property = ''dcat:keyword''\<rparr>
       exampleStore (calculateStatistics exampleStore) ''dcat_ap'') = 40
   \<and> mr_passed (evaluateMetric exampleRuntime
       \<lparr>mc_id = ''dcat_keyword'', mc_weight = 30, mc_property = ''dcat:keyword''\<rparr>
       exampleStore (calculateStatistics exampleStore) ''dcat_ap'')"
proof -
  have e: "evaluateKeywordAvailability exampleStore =
             \<lparr>ev_value = 40, ev_passed = True,
              ev_details = Detail ''metricDetails.datasetsHaveKeywords''
                (Some [(''count'', PNum 4), (''total'', PNum 10)])\<rparr>"
    unfolding evaluateKeywordAvailability_def exampleStore_datasets Let_def countIf_filter
      exampleStore_withKeyword
    by (simp add: formatMetricDetail_def)
  show ?thesis
    by (simp add: evaluateMetric_def evaluateById_def e)
qed

text \<open>
  Claim C1. The proportion that the claim states is not what the code computes when a
  dataset is a blank node. The graph \<open>[] a dcat:Dataset ; dcat:keyword "water"\<close> has one
  subject of type \<open>dcat:Dataset\<close>, and that dataset has a keyword, so the claim gives the
  value 100 and a metric that passes. The code looks the dataset up again by the
  \<open>value\<close> of its term, which for a blank node is its bare label and denotes no term
  of the graph: it finds no keyword, and returns the value 0, not passed, with the
  details "0 of 1".
\<close>

theorem keyword_metric_misses_blank_node_dataset:
  "card {s. (s, NamedNode (NS_rdf @ ''type''), NamedNode (NS_dcat @ ''Dataset'')) \<in> set blankNodeStore} = 1
   \<and> card {s \<in> {s. (s, NamedNode (NS_rdf @ ''type''), NamedNode (NS_dcat @ ''Dataset''))
                      \<in> set blankNodeStore}.
             \<exists>ob. (s, NamedNode (NS_dcat @ ''keyword''), ob) \<in> set blankNodeStore} = 1
   \<and> mr_value (evaluateMetric exampleRuntime
        \<lparr>mc_id = ''dcat_keyword'', mc_weight = 30, mc_property = ''dcat:keyword''\<rparr>
        blankNodeStore (calculateStatistics blankNodeStore) ''dcat_ap'') = 0
   \<and> \<not> mr_passed (evaluateMetric exampleRuntime
        \<lparr>mc_id = ''dcat_keyword'', mc_weight = 30, mc_property = ''dcat:keyword''\<rparr>
        blankNodeStore (calculateStatistics blankNodeStore) ''dcat_ap'')
   \<and> mr_details (evaluateMetric exampleRuntime
        \<lparr>mc_id = ''dcat_keyword'', mc_weight = 30, mc_property = ''dcat:keyword''\<rparr>
        blankNodeStore (calculateStatistics blankNodeStore) ''dcat_ap'')
       = Detail ''metricDetails.datasetsHaveKeywords'' (Some [(''count'', PNum 0), (''total'', PNum 1)])"
proof -
  have one: "card {s. (s, NamedNode (NS_rdf @ ''type''), NamedNode (NS_dcat @ ''Dataset''))
                    \<in> set blankNodeStore} = 1"
    unfolding card_subjectsOfType by (simp add: blankNodeStore_def store_eval_defs)
  have kw: "card {s \<in> {s. (s, NamedNode (NS_rdf @ ''type''), NamedNode (NS_dcat @ ''Dataset''))
                      \<in> set blankNodeStore}.
             \<exists>ob. (s, NamedNode (NS_dcat @ ''keyword''), ob) \<in> set blankNodeStore} = 1"
    unfolding card_subjectsWith by (simp add: blankNodeStore_def store_eval_defs)
  have e: "evaluateKeywordAvailability blankNodeStore =
             \<lparr>ev_value = 0, ev_passed = False,
              ev_details = Detail ''metricDetails.datasetsHaveKeywords''
                (Some [(''count'', PNum 0), (''total'', PNum 1)])\<rparr>"
    unfolding evaluateKeywordAvailability_def blankNodeStore_datasets Let_def
    by (simp add: blankNodeStore_keywords formatMetricDetail_def)
  show ?thesis
    using one kw by (simp add: evaluateMetric_def evaluateById_def e)
qed

subsection \<open>Value ranges of the evaluators\<close>

lemmas existence_evaluator_defs =
  evaluateKeywordAvailability_def evaluateThemeAvailability_def evaluateSpatialAvailability_def
  evaluateTemporalAvailability_def evaluateDownloadURLAvailability_def
  evaluateFormatAvailability_def evaluateMediaTypeAvailability_def
  evaluateLicenseAvailability_def evaluateAccessRightsAvailability_def
  evaluateContactPointAvailability_def evaluatePublisherAvailability_def
  evaluateByteSizeAvailability_def evaluateIssuedDateAvailability_def
  evaluateModifiedDateAvailability_def evaluateRightsAvailability_def
  evaluateFormatMediaTypeVocabulary_def evaluateNonProprietaryFormat_def
  evaluateMachineReadableFormat_def evaluateLicenseVocabulary_def
  evaluateAccessRightsVocabulary_def

lemma countIf_percentage:
  "xs \<noteq> [] \<Longrightarrow> real (countIf p xs 0) * 100 / real (length xs) \<le> 100"
proof -
  assume "xs \<noteq> []"
  then have d: "0 < real (length xs)"
    by simp
  have "real (countIf p xs 0) \<le> real (length xs)"
    using countIf_le [of p xs] by simp
  then have "real (countIf p xs 0) * 100 \<le> 100 * real (length xs)"
    by simp
  then show ?thesis
    using d by (simp add: pos_divide_le_eq)
qed

lemma existence_value_range:
  "0 \<le> ev_value (evaluateKeywordAvailability st) \<and> ev_value (evaluateKeywordAvailability st) \<le> 100"
  "0 \<le> ev_value (evaluateThemeAvailability st) \<and> ev_value (evaluateThemeAvailability st) \<le> 100"
  "0 \<le> ev_value (evaluateSpatialAvailability st) \<and> ev_value (evaluateSpatialAvailability st) \<le> 100"
  "0 \<le> ev_value (evaluateTemporalAvailability st) \<and> ev_value (evaluateTemporalAvailability st) \<le> 100"
  "0 \<le> ev_value (evaluateDownloadURLAvailability st) \<and> ev_value (evaluateDownloadURLAvailability st) \<le> 100"
  "0 \<le> ev_value (evaluateFormatAvailability st) \<and> ev_value (evaluateFormatAvailability st) \<le> 100"
  "0 \<le> ev_value (evaluateMediaTypeAvailability st) \<and> ev_value (evaluateMediaTypeAvailability st) \<le> 100"
  "0 \<le> ev_value (evaluateLicenseAvailability st) \<and> ev_value (evaluateLicenseAvailability st) \<le> 100"
  "0 \<le> ev_value (evaluateAccessRightsAvailability st) \<and> ev_value (evaluateAccessRightsAvailability st) \<le> 100"
  "0 \<le> ev_value (evaluateContactPointAvailability st) \<and> ev_value (evaluateContactPointAvailability st) \<le> 100"
  "0 \<le> ev_value (evaluatePublisherAvailability st) \<and> ev_value (evaluatePublisherAvailability st) \<le> 100"
  "0 \<le> ev_value (evaluateByteSizeAvailability st) \<and> ev_value (evaluateByteSizeAvailability st) \<le> 100"
  "0 \<le> ev_value (evaluateIssuedDateAvailability st) \<and> ev_value (evaluateIssuedDateAvailability st) \<le> 100"
  "0 \<le> ev_value (evaluateModifiedDateAvailability st) \<and> ev_value (evaluateModifiedDateAvailability st) \<le> 100"
  "0 \<le> ev_value (evaluateRightsAvailability st) \<and> ev_value (evaluateRightsAvailability st) \<le> 100"
  "0 \<le> ev_value (evaluateFormatMediaTypeVocabulary st) \<and> ev_value (evaluateFormatMediaTypeVocabulary st) \<le> 100"
  "0 \<le> ev_value (evaluateNonProprietaryFormat voc st) \<and> ev_value (evaluateNonProprietaryFormat voc st) \<le> 100"
  "0 \<le> ev_value (evaluateMachineReadableFormat voc st) \<and> ev_value (evaluateMachineReadableFormat voc st) \<le> 100"
  "0 \<le> ev_value (evaluateLicenseVocabulary voc st) \<and> ev_value (evaluateLicenseVocabulary voc st) \<le> 100"
  "0 \<le> ev_value (evaluateAccessRightsVocabulary voc st) \<and> ev_value (evaluateAccessRightsVocabulary voc st) \<le> 100"
  unfolding existence_evaluator_defs Let_def
  by (simp_all add: countIf_percentage)

lemma collectUrls_length_le: "length (collectUrls g ds) \<le> length ds"
  by (induction ds) (auto split: option.splits)

lemma ratio_percentage:
  assumes "n \<le> d" and "0 < d"
  shows "real n * 100 / real d \<le> 100"
proof -
  have "real n * 100 \<le> 100 * real d"
    using assms by simp
  then show ?thesis
    using assms by (simp add: pos_divide_le_eq)
qed

lemma accessURLStatus_value_range:
  "0 \<le> ev_value (evaluateAccessURLStatus rt st) \<and> ev_value (evaluateAccessURLStatus rt st) \<le> 100"
proof -
  let ?ds = "getSubjectsByType st (NS_dcat @ ''Distribution'')"
  let ?urls = "collectUrls (\<lambda>dist. getObjectValue st dist (NS_dcat @ ''accessURL'')) ?ds"
  have a: "length ?urls \<le> length ?ds"
    by (rule collectUrls_length_le)
  have b: "countIf p ?urls 0 \<le> length ?ds" for p
    using countIf_le [of p ?urls] a by linarith
  show ?thesis
    unfolding evaluateAccessURLStatus_def Let_def
    using a b by (simp add: ratio_percentage)
qed

lemma downloadURLStatus_value_range:
  "0 \<le> ev_value (evaluateDownloadURLStatus rt st) \<and> ev_value (evaluateDownloadURLStatus rt st) \<le> 100"
proof -
  let ?ds = "getSubjectsByType st (NS_dcat @ ''Distribution'')"
  let ?urls = "collectUrls (\<lambda>dist. getObjectValue st dist (NS_dcat @ ''downloadURL'')) ?ds"
  have a: "length ?urls \<le> length ?ds"
    by (rule collectUrls_length_le)
  show ?thesis
    unfolding evaluateDownloadURLStatus_def Let_def
    using a by (simp add: ratio_percentage countIf_percentage)
qed

lemma evaluateById_value_range:
  "0 \<le> ev_value (evaluateById rt i st) \<and> ev_value (evaluateById rt i st) \<le> 100"
  unfolding evaluateById_def
  by (simp add: existence_value_range accessURLStatus_value_range downloadURLStatus_value_range)

lemma evaluateMetric_value_range:
  "0 \<le> mr_value (evaluateMetric rt m st statistics profile)
   \<and> mr_value (evaluateMetric rt m st statistics profile) \<le> 100"
  using evaluateById_value_range [of rt "mc_id m" st] by (simp add: evaluateMetric_def Let_def)

subsection \<open>The dimension score\<close>

lemma dimensionLoop_sums:
  "dimensionLoop ev ms (acc, ws, tw)
     = (acc @ map ev ms,
        ws + sum_list (map (\<lambda>m. mr_value (ev m) * mc_weight m) ms),
        tw + sum_list (map mc_weight ms))"
  by (induction ms arbitrary: acc ws tw) (simp_all add: Let_def)

lemma weighted_sum_bounds:
  assumes "\<forall>m\<in>set ms. 0 \<le> w m" and "\<forall>m\<in>set ms. 0 \<le> v m \<and> v m \<le> (100::real)"
  shows "0 \<le> sum_list (map (\<lambda>m. v m * w m) ms)"
    and "sum_list (map (\<lambda>m. v m * w m) ms) \<le> 100 * sum_list (map w ms)"
    and "0 \<le> sum_list (map w ms)"
  using assms
proof (induction ms)
  case Nil
  {
    case 1 show ?case by simp
  next
    case 2 show ?case by simp
  next
    case 3 show ?case by simp
  }
next
  case (Cons m ms)
  {
    case 1
    then have "0 \<le> v m * w m" by simp
    moreover have "0 \<le> sum_list (map (\<lambda>m. v m * w m) ms)"
      using Cons.IH(1) 1 by simp
    ultimately show ?case by simp
  next
    case 2
    then have "v m * w m \<le> 100 * w m"
      by (simp add: mult_right_mono)
    moreover have "sum_list (map (\<lambda>m. v m * w m) ms) \<le> 100 * sum_list (map w ms)"
      using Cons.IH(2) 2 by simp
    ultimately show ?case by simp
  next
    case 3
    moreover have "0 \<le> sum_list (map w ms)"
      using Cons.IH(3) 3 by simp
    ultimately show ?case by simp
  }
qed

lemma calculateDimension_unfold:
  "calculateDimension config rt st statistics profile d =
     (let ms = getProfileMetrics config profile d;
          weightedSum = sum_list (map (\<lambda>m. mr_value (evaluateMetric rt m st statistics profile) * mc_weight m) ms);
          totalWeight = sum_list (map mc_weight ms);
          dimensionMaxScore = dimensionMaxScoreOf config profile d
      in \<lparr>qd_name = capitalize d,
          qd_score = (if totalWeight > 0 then weightedSum / totalWeight else 0) / 100 * dimensionMaxScore,
          qd_weight = dimensionMaxScore,
          qd_metrics = map (\<lambda>m. evaluateMetric rt m st statistics profile) ms\<rparr>)"
  by (simp add: calculateDimension_def dimensionLoop_sums Let_def)

lemma evaluateMetric_weight [simp]:
  "mr_weight (evaluateMetric rt m st statistics profile) = mc_weight m"
  by (simp add: evaluateMetric_def Let_def)



lemma exampleConfig_findability:
  "getProfileMetrics exampleConfig ''dcat_ap'' ''findability''
     = [\<lparr>mc_id = ''dcat_keyword'', mc_weight = 30, mc_property = ''dcat:keyword''\<rparr>,
        \<lparr>mc_id = ''dcat_theme'', mc_weight = 30, mc_property = ''dcat:theme''\<rparr>]"
  by (simp add: getProfileMetrics_def exampleConfig_def)

lemma exampleConfig_dimensions:
  "getProfileDimensions exampleConfig ''dcat_ap'' None
     = Some [(''findability'', \<lparr>dim_maxScore = 100\<rparr>),
             (''accessibility'', \<lparr>dim_maxScore = 100\<rparr>),
             (''interoperability'', \<lparr>dim_maxScore = 110\<rparr>),
             (''reusability'', \<lparr>dim_maxScore = 75\<rparr>),
             (''contextuality'', \<lparr>dim_maxScore = 20\<rparr>)]"
  by (simp add: getProfileDimensions_def getProfileConfig_def exampleConfig_def)

lemma exampleConfig_findability_max:
  "dimensionMaxScoreOf exampleConfig ''dcat_ap'' ''findability'' = 100"
  by (simp add: dimensionMaxScoreOf_def exampleConfig_dimensions)





text \<open>The source tests \<open>totalWeight > 0\<close>: a total weight below zero also scores 0.\<close>

lemma negative_total_weight_scores_zero:
  assumes "sum_list (map mc_weight (getProfileMetrics config profile dimensionName)) < 0"
  shows "qd_score (calculateDimension config rt st statistics profile dimensionName) = 0"
  using assms by (simp add: calculateDimension_unfold Let_def)

text \<open>
  In exact arithmetic, when the weights of a dimension's metrics and its maximum score
  are not negative, the score of the dimension lies between 0 and its maximum score;
  every metric result of the dimension has a value between 0 and 100. The rounding of
  the runtime can break the upper bound, as the section on the rounded score shows.
\<close>

lemma exact_score_bounds:
  assumes w: "\<forall>m\<in>set (getProfileMetrics config profile dimensionName). 0 \<le> mc_weight m"
    and mx: "0 \<le> dimensionMaxScoreOf config profile dimensionName"
  shows "let result = calculateDimension config rt st statistics profile dimensionName
         in 0 \<le> qd_score result
            \<and> qd_score result \<le> dimensionMaxScoreOf config profile dimensionName
            \<and> qd_weight result = dimensionMaxScoreOf config profile dimensionName
            \<and> (\<forall>r\<in>set (qd_metrics result). 0 \<le> mr_value r \<and> mr_value r \<le> 100)"
proof -
  let ?ms = "getProfileMetrics config profile dimensionName"
  let ?v = "\<lambda>m. mr_value (evaluateMetric rt m st statistics profile)"
  let ?S = "sum_list (map (\<lambda>m. ?v m * mc_weight m) ?ms)"
  let ?W = "sum_list (map mc_weight ?ms)"
  let ?M = "dimensionMaxScoreOf config profile dimensionName"
  let ?p = "if ?W > 0 then ?S / ?W else 0"
  have v: "\<forall>m\<in>set ?ms. 0 \<le> ?v m \<and> ?v m \<le> 100"
    using evaluateMetric_value_range by blast
  have S0: "0 \<le> ?S" and S100: "?S \<le> 100 * ?W"
    using weighted_sum_bounds(1,2) [OF w v] by blast+
  have p0: "0 \<le> ?p"
    using S0 by simp
  have p100: "?p \<le> 100"
    using S100 by (simp add: pos_divide_le_eq)
  have q0: "0 \<le> ?p / 100" and q1: "?p / 100 \<le> 1"
    using p0 p100 by simp_all
  have lo: "0 \<le> ?p / 100 * ?M"
    using q0 mx by (rule mult_nonneg_nonneg)
  have hi: "?p / 100 * ?M \<le> ?M"
    using mult_right_mono [OF q1 mx] by simp
  have metrics: "\<forall>r\<in>set (map (\<lambda>m. evaluateMetric rt m st statistics profile) ?ms).
      0 \<le> mr_value r \<and> mr_value r \<le> 100"
    using evaluateMetric_value_range by auto
  show ?thesis
    unfolding calculateDimension_unfold Let_def
    using lo hi metrics by simp
qed

lemma exact_score_bounds_example:
  "0 \<le> qd_score (calculateDimension exampleConfig exampleRuntime exampleStore
       (calculateStatistics exampleStore) ''dcat_ap'' ''findability'')
   \<and> qd_score (calculateDimension exampleConfig exampleRuntime exampleStore
       (calculateStatistics exampleStore) ''dcat_ap'' ''findability'') \<le> 100"
proof -
  have w: "\<forall>m\<in>set (getProfileMetrics exampleConfig ''dcat_ap'' ''findability''). 0 \<le> mc_weight m"
    by (simp add: exampleConfig_findability)
  have mx: "0 \<le> dimensionMaxScoreOf exampleConfig ''dcat_ap'' ''findability''"
    by (simp add: exampleConfig_findability_max)
  show ?thesis
    using exact_score_bounds [OF w mx, of exampleRuntime exampleStore
        "calculateStatistics exampleStore"]
    by (simp add: Let_def exampleConfig_findability_max)
qed

subsection \<open>The dispatch on the metric id\<close>

lemma evaluateById_cases:
  "evaluateById rt ''dcat_keyword'' st = evaluateKeywordAvailability st"
  "evaluateById rt ''dcat_theme'' st = evaluateThemeAvailability st"
  "evaluateById rt ''dct_spatial'' st = evaluateSpatialAvailability st"
  "evaluateById rt ''dct_temporal'' st = evaluateTemporalAvailability st"
  "evaluateById rt ''dcat_access_url_status'' st = evaluateAccessURLStatus rt st"
  "evaluateById rt ''dcat_download_url'' st = evaluateDownloadURLAvailability st"
  "evaluateById rt ''dcat_download_url_status'' st = evaluateDownloadURLStatus rt st"
  "evaluateById rt ''dct_format'' st = evaluateFormatAvailability st"
  "evaluateById rt ''dcat_media_type'' st = evaluateMediaTypeAvailability st"
  "evaluateById rt ''dct_format_vocabulary'' st = evaluateFormatMediaTypeVocabulary st"
  "evaluateById rt ''dcat_media_type_vocabulary'' st = evaluateFormatMediaTypeVocabulary st"
  "evaluateById rt ''dct_format_vocabulary_nti_risp'' st = evaluateFormatMediaTypeVocabulary st"
  "evaluateById rt ''dcat_media_type_vocabulary_nti_risp'' st = evaluateFormatMediaTypeVocabulary st"
  "evaluateById rt ''dct_format_nonproprietary'' st = evaluateNonProprietaryFormat (vocabularies rt) st"
  "evaluateById rt ''dct_format_machine_readable'' st = evaluateMachineReadableFormat (vocabularies rt) st"
  "evaluateById rt ''dct_license'' st = evaluateLicenseAvailability st"
  "evaluateById rt ''dct_license_nti_risp'' st = evaluateLicenseAvailability st"
  "evaluateById rt ''dct_license_vocabulary'' st = evaluateLicenseVocabulary (vocabularies rt) st"
  "evaluateById rt ''dct_access_rights'' st = evaluateAccessRightsAvailability st"
  "evaluateById rt ''dct_access_rights_vocabulary'' st = evaluateAccessRightsVocabulary (vocabularies rt) st"
  "evaluateById rt ''dcat_contact_point'' st = evaluateContactPointAvailability st"
  "evaluateById rt ''dct_publisher'' st = evaluatePublisherAvailability st"
  "evaluateById rt ''dcat_byte_size'' st = evaluateByteSizeAvailability st"
  "evaluateById rt ''dct_issued'' st = evaluateIssuedDateAvailability st"
  "evaluateById rt ''dct_modified'' st = evaluateModifiedDateAvailability st"
  "evaluateById rt ''dct_rights'' st = evaluateRightsAvailability st"
  by (simp_all add: evaluateById_def)

lemma evaluateById_compliance_cases:
  "evaluateById rt ''dcat_ap_compliance'' st
     = \<lparr>ev_value = 100, ev_passed = True,
        ev_details = Detail ''metricDetails.shaclValidationPassed'' None\<rparr>"
  "evaluateById rt ''dcat_ap_es_compliance'' st
     = \<lparr>ev_value = 100, ev_passed = True,
        ev_details = Detail ''metricDetails.shaclValidationPassed'' None\<rparr>"
  "evaluateById rt ''nti_risp_compliance'' st
     = \<lparr>ev_value = 100, ev_passed = True,
        ev_details = Detail ''metricDetails.shaclValidationPassed'' None\<rparr>"
  by (simp_all add: evaluateById_def formatMetricDetail_def)

text \<open>
  Claim C8. For a metric id that is not a case label of the switch, \<open>evaluateMetric\<close>
  returns the value 0, not passed, with the detail key
  \<open>metricDetails.metricNotImplemented\<close> carrying the id, whatever the graph and the
  statistics are; the function is total, so nothing is raised.
\<close>

theorem unknown_metric_not_implemented:
  assumes "mc_id m \<notin> set knownMetricIds"
  shows "evaluateMetric rt m st statistics profile
           = \<lparr>mr_id = mc_id m,
              mr_name = toUpperCase (replaceUnderscores (mc_id m)),
              mr_value = 0,
              mr_weight = mc_weight m,
              mr_passed = False,
              mr_details = Detail ''metricDetails.metricNotImplemented''
                             (Some [(''id'', PStr (mc_id m))])\<rparr>"
  using assms
  by (simp add: knownMetricIds_def datasetMetricIds_def distributionMetricIds_def
      complianceMetricIds_def evaluateMetric_def evaluateById_def formatMetricDetail_def)

theorem unknown_metric_not_implemented_witness:
  "evaluateMetric exampleRuntime
       \<lparr>mc_id = ''dcat_version'', mc_weight = 10, mc_property = ''dcat:version''\<rparr>
       exampleStore (calculateStatistics exampleStore) ''dcat_ap''
     = \<lparr>mr_id = ''dcat_version'', mr_name = ''DCAT VERSION'', mr_value = 0, mr_weight = 10,
        mr_passed = False,
        mr_details = Detail ''metricDetails.metricNotImplemented''
                       (Some [(''id'', PStr ''dcat_version'')])\<rparr>"
proof -
  have unknown: "mc_id \<lparr>mc_id = ''dcat_version'', mc_weight = 10, mc_property = ''dcat:version''\<rparr>
      \<notin> set knownMetricIds"
    by (simp add: knownMetricIds_def datasetMetricIds_def distributionMetricIds_def
        complianceMetricIds_def)
  have name: "toUpperCase (replaceUnderscores ''dcat_version'') = ''DCAT VERSION''"
    by code_simp
  show ?thesis
    using unknown_metric_not_implemented [OF unknown, of exampleRuntime exampleStore
        "calculateStatistics exampleStore" "''dcat_ap''"] name
    by simp
qed

subsection \<open>Graphs without eligible entities\<close>

lemma dataset_evaluators_empty:
  assumes "getSubjectsByType st (NS_dcat @ ''Dataset'') = []"
  shows "evaluateKeywordAvailability st = \<lparr>ev_value = 0, ev_passed = False, ev_details = Detail ''metricDetails.noDatasetsFound'' None\<rparr>"
    and "evaluateThemeAvailability st = \<lparr>ev_value = 0, ev_passed = False, ev_details = Detail ''metricDetails.noDatasetsFound'' None\<rparr>"
    and "evaluateSpatialAvailability st = \<lparr>ev_value = 0, ev_passed = False, ev_details = Detail ''metricDetails.noDatasetsFound'' None\<rparr>"
    and "evaluateTemporalAvailability st = \<lparr>ev_value = 0, ev_passed = False, ev_details = Detail ''metricDetails.noDatasetsFound'' None\<rparr>"
    and "evaluateAccessRightsAvailability st = \<lparr>ev_value = 0, ev_passed = False, ev_details = Detail ''metricDetails.noDatasetsFound'' None\<rparr>"
    and "evaluateAccessRightsVocabulary voc st = \<lparr>ev_value = 0, ev_passed = False, ev_details = Detail ''metricDetails.noDatasetsFound'' None\<rparr>"
    and "evaluateContactPointAvailability st = \<lparr>ev_value = 0, ev_passed = False, ev_details = Detail ''metricDetails.noDatasetsFound'' None\<rparr>"
    and "evaluatePublisherAvailability st = \<lparr>ev_value = 0, ev_passed = False, ev_details = Detail ''metricDetails.noDatasetsFound'' None\<rparr>"
    and "evaluateIssuedDateAvailability st = \<lparr>ev_value = 0, ev_passed = False, ev_details = Detail ''metricDetails.noDatasetsFound'' None\<rparr>"
    and "evaluateModifiedDateAvailability st = \<lparr>ev_value = 0, ev_passed = False, ev_details = Detail ''metricDetails.noDatasetsFound'' None\<rparr>"
  unfolding existence_evaluator_defs formatMetricDetail_def assms Let_def
  by simp_all

lemma distribution_evaluators_empty:
  assumes "getSubjectsByType st (NS_dcat @ ''Distribution'') = []"
  shows "evaluateAccessURLStatus rt st = \<lparr>ev_value = 0, ev_passed = False, ev_details = Detail ''metricDetails.noDistributionsFound'' None\<rparr>"
    and "evaluateDownloadURLAvailability st = \<lparr>ev_value = 0, ev_passed = False, ev_details = Detail ''metricDetails.noDistributionsFound'' None\<rparr>"
    and "evaluateDownloadURLStatus rt st = \<lparr>ev_value = 0, ev_passed = False, ev_details = Detail ''metricDetails.noDistributionsFound'' None\<rparr>"
    and "evaluateFormatAvailability st = \<lparr>ev_value = 0, ev_passed = False, ev_details = Detail ''metricDetails.noDistributionsFound'' None\<rparr>"
    and "evaluateMediaTypeAvailability st = \<lparr>ev_value = 0, ev_passed = False, ev_details = Detail ''metricDetails.noDistributionsFound'' None\<rparr>"
    and "evaluateFormatMediaTypeVocabulary st = \<lparr>ev_value = 0, ev_passed = False, ev_details = Detail ''metricDetails.noDistributionsFound'' None\<rparr>"
    and "evaluateNonProprietaryFormat voc st = \<lparr>ev_value = 0, ev_passed = False, ev_details = Detail ''metricDetails.noDistributionsFound'' None\<rparr>"
    and "evaluateMachineReadableFormat voc st = \<lparr>ev_value = 0, ev_passed = False, ev_details = Detail ''metricDetails.noDistributionsFound'' None\<rparr>"
    and "evaluateLicenseAvailability st = \<lparr>ev_value = 0, ev_passed = False, ev_details = Detail ''metricDetails.noDistributionsFound'' None\<rparr>"
    and "evaluateLicenseVocabulary voc st = \<lparr>ev_value = 0, ev_passed = False, ev_details = Detail ''metricDetails.noDistributionsFound'' None\<rparr>"
    and "evaluateByteSizeAvailability st = \<lparr>ev_value = 0, ev_passed = False, ev_details = Detail ''metricDetails.noDistributionsFound'' None\<rparr>"
    and "evaluateRightsAvailability st = \<lparr>ev_value = 0, ev_passed = False, ev_details = Detail ''metricDetails.noDistributionsFound'' None\<rparr>"
  unfolding existence_evaluator_defs evaluateAccessURLStatus_def evaluateDownloadURLStatus_def
    formatMetricDetail_def assms Let_def
  by simp_all

lemma evaluateById_dataset_empty:
  assumes "i \<in> set datasetMetricIds" and "getSubjectsByType st (NS_dcat @ ''Dataset'') = []"
  shows "evaluateById rt i st
           = \<lparr>ev_value = 0, ev_passed = False,
              ev_details = Detail ''metricDetails.noDatasetsFound'' None\<rparr>"
proof -
  from assms(1) have
      "i = ''dcat_keyword'' \<or> i = ''dcat_theme'' \<or> i = ''dct_spatial''
    \<or> i = ''dct_temporal'' \<or> i = ''dct_access_rights''
    \<or> i = ''dct_access_rights_vocabulary'' \<or> i = ''dcat_contact_point''
    \<or> i = ''dct_publisher'' \<or> i = ''dct_issued'' \<or> i = ''dct_modified''"
    by (simp only: datasetMetricIds_def set_simps insert_iff empty_iff simp_thms)
  then show ?thesis
    by (elim disjE; hypsubst; simp only: evaluateById_cases dataset_evaluators_empty [OF assms(2)])
qed

lemma evaluateById_distribution_empty:
  assumes "i \<in> set distributionMetricIds"
    and "getSubjectsByType st (NS_dcat @ ''Distribution'') = []"
  shows "evaluateById rt i st
           = \<lparr>ev_value = 0, ev_passed = False,
              ev_details = Detail ''metricDetails.noDistributionsFound'' None\<rparr>"
proof -
  from assms(1) have
      "i = ''dcat_access_url_status'' \<or> i = ''dcat_download_url''
    \<or> i = ''dcat_download_url_status'' \<or> i = ''dct_format'' \<or> i = ''dcat_media_type''
    \<or> i = ''dct_format_vocabulary'' \<or> i = ''dcat_media_type_vocabulary''
    \<or> i = ''dct_format_vocabulary_nti_risp'' \<or> i = ''dcat_media_type_vocabulary_nti_risp''
    \<or> i = ''dct_format_nonproprietary'' \<or> i = ''dct_format_machine_readable''
    \<or> i = ''dct_license'' \<or> i = ''dct_license_nti_risp'' \<or> i = ''dct_license_vocabulary''
    \<or> i = ''dcat_byte_size'' \<or> i = ''dct_rights''"
    by (simp only: distributionMetricIds_def set_simps insert_iff empty_iff simp_thms)
  then show ?thesis
    by (elim disjE; hypsubst;
        simp only: evaluateById_cases distribution_evaluators_empty [OF assms(2)])
qed

lemma evaluateById_compliance:
  assumes "i \<in> set complianceMetricIds"
  shows "evaluateById rt i st
           = \<lparr>ev_value = 100, ev_passed = True,
              ev_details = Detail ''metricDetails.shaclValidationPassed'' None\<rparr>"
proof -
  from assms have
      "i = ''dcat_ap_compliance'' \<or> i = ''dcat_ap_es_compliance'' \<or> i = ''nti_risp_compliance''"
    by (simp only: complianceMetricIds_def set_simps insert_iff empty_iff simp_thms)
  then show ?thesis
    by (elim disjE; hypsubst; simp only: evaluateById_compliance_cases)
qed

text \<open>
  Claim C6, as amended. For every metric id whose strategy counts datasets, a graph
  without datasets gives the value 0, not passed, and the detail
  \<open>metricDetails.noDatasetsFound\<close>; for every metric id whose strategy counts
  distributions, a graph without distributions gives the value 0, not passed, and the
  detail \<open>metricDetails.noDistributionsFound\<close>. The three static compliance ids give
  100 and passed on every graph.
\<close>

theorem no_entities_zero_outcome:
  "(mc_id m \<in> set datasetMetricIds \<and> getSubjectsByType st (NS_dcat @ ''Dataset'') = []
      \<longrightarrow> mr_value (evaluateMetric rt m st statistics profile) = 0
          \<and> \<not> mr_passed (evaluateMetric rt m st statistics profile)
          \<and> mr_details (evaluateMetric rt m st statistics profile)
              = Detail ''metricDetails.noDatasetsFound'' None)
   \<and> (mc_id m \<in> set distributionMetricIds
        \<and> getSubjectsByType st (NS_dcat @ ''Distribution'') = []
      \<longrightarrow> mr_value (evaluateMetric rt m st statistics profile) = 0
          \<and> \<not> mr_passed (evaluateMetric rt m st statistics profile)
          \<and> mr_details (evaluateMetric rt m st statistics profile)
              = Detail ''metricDetails.noDistributionsFound'' None)
   \<and> (mc_id m \<in> set complianceMetricIds
      \<longrightarrow> mr_value (evaluateMetric rt m st statistics profile) = 100
          \<and> mr_passed (evaluateMetric rt m st statistics profile))"
proof (intro conjI impI)
  assume a: "mc_id m \<in> set datasetMetricIds \<and> getSubjectsByType st (NS_dcat @ ''Dataset'') = []"
  have e: "evaluateById rt (mc_id m) st
      = \<lparr>ev_value = 0, ev_passed = False, ev_details = Detail ''metricDetails.noDatasetsFound'' None\<rparr>"
    using a evaluateById_dataset_empty by blast
  show "mr_value (evaluateMetric rt m st statistics profile) = 0"
    and "\<not> mr_passed (evaluateMetric rt m st statistics profile)"
    and "mr_details (evaluateMetric rt m st statistics profile)
          = Detail ''metricDetails.noDatasetsFound'' None"
    by (simp_all add: evaluateMetric_def e)
next
  assume a: "mc_id m \<in> set distributionMetricIds
      \<and> getSubjectsByType st (NS_dcat @ ''Distribution'') = []"
  have e: "evaluateById rt (mc_id m) st
      = \<lparr>ev_value = 0, ev_passed = False,
         ev_details = Detail ''metricDetails.noDistributionsFound'' None\<rparr>"
    using a evaluateById_distribution_empty by blast
  show "mr_value (evaluateMetric rt m st statistics profile) = 0"
    and "\<not> mr_passed (evaluateMetric rt m st statistics profile)"
    and "mr_details (evaluateMetric rt m st statistics profile)
          = Detail ''metricDetails.noDistributionsFound'' None"
    by (simp_all add: evaluateMetric_def e)
next
  assume a: "mc_id m \<in> set complianceMetricIds"
  show "mr_value (evaluateMetric rt m st statistics profile) = 100"
    and "mr_passed (evaluateMetric rt m st statistics profile)"
    by (simp_all add: evaluateMetric_def evaluateById_compliance [OF a])
qed

text \<open>
  The claim as stated, for every metric id, fails: on the empty graph, which has
  neither datasets nor distributions, the metric \<open>dcat_ap_compliance\<close> has the
  value 100 and passes.
\<close>

theorem compliance_metric_on_empty_graph:
  "getSubjectsByType [] (NS_dcat @ ''Dataset'') = []
   \<and> getSubjectsByType [] (NS_dcat @ ''Distribution'') = []
   \<and> mr_value (evaluateMetric exampleRuntime
          \<lparr>mc_id = ''dcat_ap_compliance'', mc_weight = 30, mc_property = ''shacl''\<rparr>
          [] (calculateStatistics []) ''dcat_ap'') = 100
   \<and> mr_passed (evaluateMetric exampleRuntime
          \<lparr>mc_id = ''dcat_ap_compliance'', mc_weight = 30, mc_property = ''shacl''\<rparr>
          [] (calculateStatistics []) ''dcat_ap'')"
  by (simp add: getSubjectsByType_def store_getSubjects_def store_terms_def
      firstOccurrences_def evaluateMetric_def evaluateById_compliance_cases)

theorem no_entities_zero_outcome_witness:
  "mr_value (evaluateMetric exampleRuntime
       \<lparr>mc_id = ''dct_license'', mc_weight = 20, mc_property = ''dct:license''\<rparr>
       [] (calculateStatistics []) ''dcat_ap'') = 0
   \<and> mr_details (evaluateMetric exampleRuntime
       \<lparr>mc_id = ''dct_license'', mc_weight = 20, mc_property = ''dct:license''\<rparr>
       [] (calculateStatistics []) ''dcat_ap'') = Detail ''metricDetails.noDistributionsFound'' None
   \<and> mr_value (evaluateMetric exampleRuntime
       \<lparr>mc_id = ''dcat_theme'', mc_weight = 30, mc_property = ''dcat:theme''\<rparr>
       [] (calculateStatistics []) ''dcat_ap'') = 0
   \<and> mr_details (evaluateMetric exampleRuntime
       \<lparr>mc_id = ''dcat_theme'', mc_weight = 30, mc_property = ''dcat:theme''\<rparr>
       [] (calculateStatistics []) ''dcat_ap'') = Detail ''metricDetails.noDatasetsFound'' None
   \<and> mr_value (evaluateMetric exampleRuntime
       \<lparr>mc_id = ''nti_risp_compliance'', mc_weight = 30, mc_property = ''shacl''\<rparr>
       [] (calculateStatistics []) ''nti_risp'') = 100"
proof -
  have empty: "getSubjectsByType [] t = []" for t
    by (simp add: getSubjectsByType_def store_getSubjects_def store_terms_def
        firstOccurrences_def)
  have lic: "mc_id \<lparr>mc_id = ''dct_license'', mc_weight = 20, mc_property = ''dct:license''\<rparr>
      \<in> set distributionMetricIds"
    by (simp add: distributionMetricIds_def)
  have theme: "mc_id \<lparr>mc_id = ''dcat_theme'', mc_weight = 30, mc_property = ''dcat:theme''\<rparr>
      \<in> set datasetMetricIds"
    by (simp add: datasetMetricIds_def)
  have comp: "mc_id \<lparr>mc_id = ''nti_risp_compliance'', mc_weight = 30, mc_property = ''shacl''\<rparr>
      \<in> set complianceMetricIds"
    by (simp add: complianceMetricIds_def)
  show ?thesis
    using no_entities_zero_outcome [of
          "\<lparr>mc_id = ''dct_license'', mc_weight = 20, mc_property = ''dct:license''\<rparr>"
          "[]" exampleRuntime "calculateStatistics []" "''dcat_ap''"]
      no_entities_zero_outcome [of
          "\<lparr>mc_id = ''dcat_theme'', mc_weight = 30, mc_property = ''dcat:theme''\<rparr>"
          "[]" exampleRuntime "calculateStatistics []" "''dcat_ap''"]
      no_entities_zero_outcome [of
          "\<lparr>mc_id = ''nti_risp_compliance'', mc_weight = 30, mc_property = ''shacl''\<rparr>"
          "[]" exampleRuntime "calculateStatistics []" "''nti_risp''"]
      lic theme comp empty
    by blast
qed

subsection \<open>The assessment\<close>

lemma map_of_fold_update:
  "map_of (fold (\<lambda>n m. AList.update n (f n) m) ns m0) k
     = (if k \<in> set ns then Some (f k) else map_of m0 k)"
  by (induction ns arbitrary: m0) (auto simp: update_conv')

lemma calculateDimension_metrics:
  "qd_metrics (calculateDimension config rt st statistics profile d)
     = map (\<lambda>m. evaluateMetric rt m st statistics profile) (getProfileMetrics config profile d)"
  by (simp add: calculateDimension_unfold Let_def)

text \<open>
  Claim C3. For a profile that the configuration knows, with the five dimensions
  that the interface \<open>MQAProfileVersion\<close> declares, \<open>calculateQuality\<close> returns an
  assessment in which each of the five dimension keys is defined, and each dimension
  carries one result per metric configured for it, in order.
\<close>

theorem assessment_has_five_dimensions:
  assumes known: "getProfileDimensions config profile None = Some dimensionsConfig"
    and five: "declaresFiveDimensions dimensionsConfig"
  shows "\<exists>qa. calculateQuality config rt st profile now = Inr qa
           \<and> findability (qa_dimensions qa)
               = Some (calculateDimension config rt st (calculateStatistics st) profile ''findability'')
           \<and> accessibility (qa_dimensions qa)
               = Some (calculateDimension config rt st (calculateStatistics st) profile ''accessibility'')
           \<and> interoperability (qa_dimensions qa)
               = Some (calculateDimension config rt st (calculateStatistics st) profile ''interoperability'')
           \<and> reusability (qa_dimensions qa)
               = Some (calculateDimension config rt st (calculateStatistics st) profile ''reusability'')
           \<and> contextuality (qa_dimensions qa)
               = Some (calculateDimension config rt st (calculateStatistics st) profile ''contextuality'')
           \<and> (\<forall>k. qd_metrics (calculateDimension config rt st (calculateStatistics st) profile k)
                    = map (\<lambda>m. evaluateMetric rt m st (calculateStatistics st) profile)
                        (getProfileMetrics config profile k))"
proof -
  have keys: "''findability'' \<in> set (map fst dimensionsConfig)"
    "''accessibility'' \<in> set (map fst dimensionsConfig)"
    "''interoperability'' \<in> set (map fst dimensionsConfig)"
    "''reusability'' \<in> set (map fst dimensionsConfig)"
    "''contextuality'' \<in> set (map fst dimensionsConfig)"
    using five by (simp_all add: declaresFiveDimensions_def dimensionKeys_def)
  show ?thesis
    using keys
    by (simp add: calculateQuality_def known Let_def map_of_fold_update
        calculateDimension_metrics del: set_map)
qed

theorem assessment_has_five_dimensions_witness:
  "\<exists>qa. calculateQuality exampleConfig exampleRuntime exampleStore ''dcat_ap'' 1762128000000 = Inr qa
       \<and> findability (qa_dimensions qa)
           = Some (calculateDimension exampleConfig exampleRuntime exampleStore
                     (calculateStatistics exampleStore) ''dcat_ap'' ''findability'')
       \<and> contextuality (qa_dimensions qa)
           = Some (calculateDimension exampleConfig exampleRuntime exampleStore
                     (calculateStatistics exampleStore) ''dcat_ap'' ''contextuality'')
       \<and> map mr_id (qd_metrics (calculateDimension exampleConfig exampleRuntime exampleStore
                     (calculateStatistics exampleStore) ''dcat_ap'' ''findability''))
           = [''dcat_keyword'', ''dcat_theme'']"
proof -
  have five: "declaresFiveDimensions
      [(''findability'', \<lparr>dim_maxScore = 100\<rparr>),
       (''accessibility'', \<lparr>dim_maxScore = 100\<rparr>),
       (''interoperability'', \<lparr>dim_maxScore = 110\<rparr>),
       (''reusability'', \<lparr>dim_maxScore = 75\<rparr>),
       (''contextuality'', \<lparr>dim_maxScore = 20\<rparr>)]"
    by (simp add: declaresFiveDimensions_def dimensionKeys_def)
  obtain qa where qa: "calculateQuality exampleConfig exampleRuntime exampleStore ''dcat_ap'' 1762128000000 = Inr qa"
    and f: "findability (qa_dimensions qa)
           = Some (calculateDimension exampleConfig exampleRuntime exampleStore
                     (calculateStatistics exampleStore) ''dcat_ap'' ''findability'')"
    and c: "contextuality (qa_dimensions qa)
           = Some (calculateDimension exampleConfig exampleRuntime exampleStore
                     (calculateStatistics exampleStore) ''dcat_ap'' ''contextuality'')"
    and m: "qd_metrics (calculateDimension exampleConfig exampleRuntime exampleStore
                     (calculateStatistics exampleStore) ''dcat_ap'' ''findability'')
           = map (\<lambda>m. evaluateMetric exampleRuntime m exampleStore (calculateStatistics exampleStore) ''dcat_ap'')
               (getProfileMetrics exampleConfig ''dcat_ap'' ''findability'')"
    using assessment_has_five_dimensions [OF exampleConfig_dimensions five,
        of exampleRuntime exampleStore 1762128000000]
    by blast
  have ids: "map mr_id (qd_metrics (calculateDimension exampleConfig exampleRuntime exampleStore
                     (calculateStatistics exampleStore) ''dcat_ap'' ''findability''))
           = [''dcat_keyword'', ''dcat_theme'']"
    unfolding m exampleConfig_findability evaluateMetric_def Let_def by simp
  show ?thesis
    by (rule exI [of _ qa]) (simp only: qa f c ids simp_thms)
qed

text \<open>
  The source fills \<open>dimensions\<close> from the keys the configuration has: a key that the
  configuration lacks is left undefined in the assessment.
\<close>

lemma missing_dimension_is_undefined:
  assumes "getProfileDimensions config profile None = Some dimensionsConfig"
    and "''contextuality'' \<notin> set (map fst dimensionsConfig)"
  shows "\<exists>qa. calculateQuality config rt st profile now = Inr qa
           \<and> contextuality (qa_dimensions qa) = None"
  using assms(2)
  by (simp add: calculateQuality_def assms(1) Let_def map_of_fold_update del: set_map)

text \<open>
  A profile for which the configuration has no dimensions is the one failure of the
  assessment: \<open>Profile ... not found in configuration\<close>.
\<close>

lemma unknown_profile_is_an_error:
  assumes "getProfileDimensions config profile None = None"
  shows "calculateQuality config rt st profile now = Inl (ProfileNotFound profile)"
  by (simp add: calculateQuality_def assms)

subsection \<open>The batch route\<close>

lemma show_nat_50: "show_nat 50 = ''50''"
proof -
  have five: "show_nat 5 = [digit_char 5]"
    by (subst show_nat.simps) simp
  have fifty: "show_nat 50 = show_nat 5 @ [digit_char 0]"
    by (subst show_nat.simps) simp
  have digits: "digit_char 5 = CHR ''5''" "digit_char 0 = CHR ''0''"
    by code_simp+
  show ?thesis
    unfolding fifty five digits by simp
qed

text \<open>
  Claim C10. A batch request with more than 50 URLs is answered with status 400 and
  no URL is probed; a request with an empty array is answered with status 200 and an
  empty list of results.
\<close>

theorem oversized_batch_rejected:
  "(length urls > 50 \<longrightarrow>
      PUT net (PutBody (Some urls) tmo)
        = (\<lparr>http_status = 400, http_body = ErrorBody ''Maximum batch size is 50 URLs''\<rparr>, []))
   \<and> PUT net (PutBody (Some []) tmo) = (\<lparr>http_status = 200, http_body = ResultsBody []\<rparr>, [])"
  by (auto simp: PUT_def Let_def show_nat_50)

theorem oversized_batch_rejected_witness:
  "PUT exampleNetwork (PutBody (Some (replicate 51 ''https://example.org/a.csv'')) (Some 3000))
     = (\<lparr>http_status = 400, http_body = ErrorBody ''Maximum batch size is 50 URLs''\<rparr>, [])"
proof -
  have "length (replicate 51 ''https://example.org/a.csv'') > 50"
    by simp
  then show ?thesis
    using oversized_batch_rejected [of "replicate 51 ''https://example.org/a.csv''"
        exampleNetwork "Some 3000"]
    by (simp only: simp_thms)
qed


subsection \<open>The cache\<close>

text \<open>
  Claim C9. When the cache holds an entry for the URL whose timestamp is less than
  five minutes before the time of the call, \<open>checkUrlStatusCached\<close> returns the stored
  result, probes nothing and leaves the cache as it is; otherwise it probes the URL,
  returns the fresh result, and the cache it leaves maps the URL to that result with the
  time of the call.
\<close>

theorem cached_check_within_ttl:
  "(case map_of urlCache u of
      Some cached \<Rightarrow>
        if now - ce_timestamp cached < 5 * 60 * 1000
        then cc_result (checkUrlStatusCached net u tmo now urlCache) = ce_result cached
             \<and> cc_probes (checkUrlStatusCached net u tmo now urlCache) = []
             \<and> cc_cache (checkUrlStatusCached net u tmo now urlCache) = urlCache
        else cc_result (checkUrlStatusCached net u tmo now urlCache) = checkUrlStatus net u tmo
             \<and> cc_probes (checkUrlStatusCached net u tmo now urlCache) = [u]
             \<and> map_of (cc_cache (checkUrlStatusCached net u tmo now urlCache)) u
                 = Some \<lparr>ce_result = checkUrlStatus net u tmo, ce_timestamp = now\<rparr>
    | None \<Rightarrow>
        cc_result (checkUrlStatusCached net u tmo now urlCache) = checkUrlStatus net u tmo
        \<and> cc_probes (checkUrlStatusCached net u tmo now urlCache) = [u]
        \<and> map_of (cc_cache (checkUrlStatusCached net u tmo now urlCache)) u
            = Some \<lparr>ce_result = checkUrlStatus net u tmo, ce_timestamp = now\<rparr>)"
proof -
  let ?e = "\<lparr>ce_result = checkUrlStatus net u tmo, ce_timestamp = now\<rparr>"
  let ?c1 = "AList.update u ?e urlCache"
  have stored: "map_of ?c1 u = Some ?e"
    by (simp add: update_conv')
  have kept: "map_of (filter (\<lambda>(k, v). \<not> ce_timestamp v < now - CACHE_TTL) ?c1) u = Some ?e"
    using stored by (rule map_of_filter_in) (simp add: CACHE_TTL_def)
  show ?thesis
    using stored kept
    by (simp add: checkUrlStatusCached_def Let_def CACHE_TTL_def split: option.splits)
qed

theorem cached_check_within_ttl_witness:
  "cc_result (checkUrlStatusCached exampleNetwork ''https://example.org/a.csv'' 3000
       1762128299999 exampleCache)
     = inaccessible ''https://example.org/a.csv'' ''Request timeout''
   \<and> cc_probes (checkUrlStatusCached exampleNetwork ''https://example.org/a.csv'' 3000
       1762128299999 exampleCache) = []
   \<and> cc_result (checkUrlStatusCached exampleNetwork ''https://example.org/a.csv'' 3000
       1762128300000 exampleCache)
     = checkUrlStatus exampleNetwork ''https://example.org/a.csv'' 3000
   \<and> cc_probes (checkUrlStatusCached exampleNetwork ''https://example.org/a.csv'' 3000
       1762128300000 exampleCache) = [''https://example.org/a.csv'']"
proof -
  have entry: "map_of exampleCache ''https://example.org/a.csv''
      = Some \<lparr>ce_result = inaccessible ''https://example.org/a.csv'' ''Request timeout'',
               ce_timestamp = 1762128000000\<rparr>"
    by (simp add: exampleCache_def)
  show ?thesis
    using cached_check_within_ttl [where urlCache = exampleCache
        and u = "''https://example.org/a.csv''" and now = 1762128299999
        and net = exampleNetwork and tmo = 3000]
      cached_check_within_ttl [where urlCache = exampleCache
        and u = "''https://example.org/a.csv''" and now = 1762128300000
        and net = exampleNetwork and tmo = 3000]
    unfolding entry by simp
qed

subsection \<open>Chunks and the result map\<close>




















subsection \<open>Reachability metrics\<close>








subsection \<open>The dimension score as the runtime rounds it\<close>

lemma floor_log2_eq:
  fixes k :: int
  assumes "2 powr (of_int k) \<le> x" and "x < 2 powr (of_int k + 1)"
  shows "\<lfloor>log 2 x\<rfloor> = k"
proof -
  have "0 < (2::real) powr (of_int k)"
    by simp
  then have pos: "0 < x"
    using assms(1) by linarith
  have "of_int k \<le> log 2 x"
    using assms(1) pos by (simp add: le_log_iff)
  moreover have "log 2 x < of_int k + 1"
    using assms(2) pos by (simp add: log_less_iff)
  ultimately show ?thesis
    by (simp add: floor_eq_iff)
qed

text \<open>
  A number whose magnitude, scaled by \<open>2^n\<close>, lies between \<open>2^52\<close> and \<open>2^53\<close> is
  rounded to the nearest multiple of \<open>2^-n\<close>.
\<close>

lemma binary64_scaled:
  fixes n :: nat
  assumes lo: "2 ^ 52 \<le> x * 2 ^ n" and hi: "x * 2 ^ n < 2 ^ 53" and m: "rne (x * 2 ^ n) = m"
  shows "binary64 x = of_int m / 2 ^ n"
proof -
  let ?k = "52 - int n"
  have p: "(0::real) < 2 ^ n"
    by simp
  have "0 < x * 2 ^ n"
    using lo by (smt (verit) zero_less_power)
  then have pos: "0 < x"
    using p by (simp add: zero_less_mult_iff)
  have scale: "2 powr (of_int ?k) = (2::real) ^ 52 / 2 ^ n"
  proof -
    have "(2::real) powr (of_int ?k) = 2 powr (52 - real n)"
      by simp
    also have "\<dots> = 2 powr 52 / 2 powr (real n)"
      by (rule powr_diff)
    also have "\<dots> = 2 ^ 52 / 2 ^ n"
      by (simp add: powr_realpow)
    finally show ?thesis .
  qed
  have l: "2 powr (of_int ?k) \<le> \<bar>x\<bar>"
    unfolding scale using lo pos p by (simp add: pos_divide_le_eq)
  have "2 powr (of_int ?k + 1) = (2::real) ^ 53 / 2 ^ n"
    unfolding powr_add scale by simp
  then have h: "\<bar>x\<bar> < 2 powr (of_int ?k + 1)"
    using hi pos p by (simp add: pos_less_divide_eq)
  have fl: "\<lfloor>log 2 \<bar>x\<bar>\<rfloor> = ?k"
    by (rule floor_log2_eq [OF l h])
  have e: "2 powr (of_int (?k - 52)) = 1 / (2::real) ^ n"
  proof -
    have "(2::real) powr (of_int (?k - 52)) = 2 powr (- real n)"
      by simp
    also have "\<dots> = 1 / 2 powr (real n)"
      by (simp add: powr_minus_divide)
    also have "\<dots> = 1 / 2 ^ n"
      by (simp add: powr_realpow)
    finally show ?thesis .
  qed
  have xn: "x \<noteq> 0"
    using pos by simp
  have "binary64 x =
          of_int (rne (x / 2 powr (of_int (\<lfloor>log 2 \<bar>x\<bar>\<rfloor> - 52)))) *
          2 powr (of_int (\<lfloor>log 2 \<bar>x\<bar>\<rfloor> - 52))"
    unfolding binary64_def Let_def using xn by (simp only: if_False)
  also have "\<dots> = of_int (rne (x / (1 / 2 ^ n))) * (1 / 2 ^ n)"
    unfolding fl e ..
  also have "\<dots> = of_int m / 2 ^ n"
    using m by simp
  finally show ?thesis .
qed

lemma binary64_tenth: "binary64 (1 / 10) = 7205759403792794 / 2 ^ 56"
  by (rule binary64_scaled [where m = 7205759403792794, simplified]) (simp_all add: rne_def Let_def)

lemma binary64_seven_tenths: "binary64 (7 / 10) = 6305039478318694 / 2 ^ 53"
  by (rule binary64_scaled [where m = 6305039478318694, simplified]) (simp_all add: rne_def Let_def)

lemma binary64_ten: "binary64 10 = 10"
proof -
  have "binary64 10 = 5629499534213120 / 2 ^ 49"
    by (rule binary64_scaled [where m = 5629499534213120, simplified]) (simp_all add: rne_def Let_def)
  then show ?thesis
    by simp
qed

lemma binary64_eighty: "binary64 80 = 80"
proof -
  have "binary64 80 = 5629499534213120 / 2 ^ 46"
    by (rule binary64_scaled [where m = 5629499534213120, simplified]) (simp_all add: rne_def Let_def)
  then show ?thesis
    by simp
qed

lemma first_product: "binary64 (100 * (7205759403792794 / 2 ^ 56)) = 10"
proof -
  have "binary64 (100 * (7205759403792794 / 2 ^ 56)) = 5629499534213120 / 2 ^ 49"
    by (rule binary64_scaled [where m = 5629499534213120, simplified]) (simp_all add: rne_def Let_def)
  then show ?thesis
    by simp
qed

lemma first_weight: "binary64 (7205759403792794 / 2 ^ 56) = 7205759403792794 / 2 ^ 56"
  by (rule binary64_scaled [where m = 7205759403792794, simplified]) (simp_all add: rne_def Let_def)

lemma second_product: "binary64 (100 * (6305039478318694 / 2 ^ 53)) = 70"
proof -
  have "binary64 (100 * (6305039478318694 / 2 ^ 53)) = 4925812092436480 / 2 ^ 46"
    by (rule binary64_scaled [where m = 4925812092436480, simplified]) (simp_all add: rne_def Let_def)
  then show ?thesis
    by simp
qed

lemma total_weight:
  "binary64 (7205759403792794 / 2 ^ 56 + 6305039478318694 / 2 ^ 53) = 7205759403792793 / 2 ^ 53"
  by (rule binary64_scaled [where m = 7205759403792793, simplified]) (simp_all add: rne_def Let_def)

lemma percentage_quotient:
  "binary64 (80 / (7205759403792793 / 2 ^ 53)) = 7036874417766401 / 2 ^ 46"
  by (rule binary64_scaled [where m = 7036874417766401, simplified]) (simp_all add: rne_def Let_def)

lemma percentage_fraction:
  "binary64 (7036874417766401 / 2 ^ 46 / 100) = 4503599627370497 / 2 ^ 52"
  by (rule binary64_scaled [where m = 4503599627370497, simplified]) (simp_all add: rne_def Let_def)

lemma score_product:
  "binary64 (4503599627370497 / 2 ^ 52 * 100) = 7036874417766402 / 2 ^ 46"
  by (rule binary64_scaled [where m = 7036874417766402, simplified]) (simp_all add: rne_def Let_def)

lemma dimensionLoop_binary64_two:
  "dimensionLoop_binary64 ev [m1, m2] ([], 0, 0) =
     ([ev m1, ev m2],
      fl_add (fl_add 0 (fl_mul (mr_value (ev m1)) (mc_weight m1)))
        (fl_mul (mr_value (ev m2)) (mc_weight m2)),
      fl_add (fl_add 0 (mc_weight m1)) (mc_weight m2))"
  by (simp add: Let_def)

lemma rounded_weighted_sum:
  "fl_add (fl_add 0 (fl_mul 100 (binary64 (1 / 10)))) (fl_mul 100 (binary64 (7 / 10))) = 80"
  unfolding fl_add_def fl_mul_def binary64_tenth binary64_seven_tenths first_product
    second_product
  by (simp add: binary64_ten binary64_eighty)

lemma rounded_total_weight:
  "fl_add (fl_add 0 (binary64 (1 / 10))) (binary64 (7 / 10)) = 7205759403792793 / 2 ^ 53"
  unfolding fl_add_def binary64_tenth binary64_seven_tenths
  by (simp only: add_0 first_weight total_weight)

lemma rounded_score:
  "fl_mul (fl_div (fl_div 80 (7205759403792793 / 2 ^ 53)) 100) 100 = 7036874417766402 / 2 ^ 46"
  unfolding fl_mul_def fl_div_def percentage_quotient percentage_fraction score_product ..

lemma compliance_value:
  "mr_value (evaluateMetric rt \<lparr>mc_id = ''dcat_ap_compliance'', mc_weight = w, mc_property = pr\<rparr>
     st statistics profile) = 100"
  "mr_value (evaluateMetric rt \<lparr>mc_id = ''dcat_ap_es_compliance'', mc_weight = w, mc_property = pr\<rparr>
     st statistics profile) = 100"
  by (simp_all add: evaluateMetric_def evaluateById_def Let_def)

lemma roundingConfig_metrics:
  "getProfileMetrics roundingConfig ''dcat_ap'' ''interoperability'' =
     [\<lparr>mc_id = ''dcat_ap_compliance'', mc_weight = binary64 (1 / 10), mc_property = ''shacl''\<rparr>,
      \<lparr>mc_id = ''dcat_ap_es_compliance'', mc_weight = binary64 (7 / 10), mc_property = ''shacl''\<rparr>]"
  by (simp add: getProfileMetrics_def roundingConfig_def)

lemma roundingConfig_maxScore:
  "dimensionMaxScoreOf roundingConfig ''dcat_ap'' ''interoperability'' = 100"
  by (simp add: dimensionMaxScoreOf_def getProfileDimensions_def getProfileConfig_def
      roundingConfig_def)

lemma roundingConfig_weights:
  "0 \<le> binary64 (1 / 10)" "0 \<le> binary64 (7 / 10)"
  unfolding binary64_tenth binary64_seven_tenths by simp_all

text \<open>
  Claim C7. The bound that the claim states does not hold for the score as the runtime
  computes it. With two metrics of value 100, the weights 0.1 and 0.7 (neither is
  negative) and the maximum score 100, the rounded total weight is just below the
  rounded weighted sum over 100, the percentage comes out above 100, and the score of
  the dimension is \<open>100 + 2^-45\<close> (printed 100.00000000000003), above its maximum
  score.
\<close>

theorem binary64_score_exceeds_max_score:
  "list_all (\<lambda>metricConfig. 0 \<le> mc_weight metricConfig)
     (getProfileMetrics roundingConfig ''dcat_ap'' ''interoperability'')
   \<and> qd_weight (calculateDimension_binary64 roundingConfig exampleRuntime exampleStore
        (calculateStatistics exampleStore) ''dcat_ap'' ''interoperability'') = 100
   \<and> qd_score (calculateDimension_binary64 roundingConfig exampleRuntime exampleStore
        (calculateStatistics exampleStore) ''dcat_ap'' ''interoperability'') = 100 + 1 / 2 ^ 45
   \<and> qd_score (calculateDimension_binary64 roundingConfig exampleRuntime exampleStore
        (calculateStatistics exampleStore) ''dcat_ap'' ''interoperability'')
       > qd_weight (calculateDimension_binary64 roundingConfig exampleRuntime exampleStore
           (calculateStatistics exampleStore) ''dcat_ap'' ''interoperability'')"
proof -
  let ?d = "calculateDimension_binary64 roundingConfig exampleRuntime exampleStore
              (calculateStatistics exampleStore) ''dcat_ap'' ''interoperability''"
  have w: "list_all (\<lambda>metricConfig. 0 \<le> mc_weight metricConfig)
             (getProfileMetrics roundingConfig ''dcat_ap'' ''interoperability'')"
    unfolding roundingConfig_metrics by (simp add: roundingConfig_weights)
  have pos: "(0::real) < 7205759403792793 / 2 ^ 53"
    by simp
  let ?ev = "\<lambda>metricConfig. evaluateMetric exampleRuntime metricConfig exampleStore
                (calculateStatistics exampleStore) ''dcat_ap''"
  let ?m1 = "\<lparr>mc_id = ''dcat_ap_compliance'', mc_weight = binary64 (1 / 10),
              mc_property = ''shacl''\<rparr>"
  let ?m2 = "\<lparr>mc_id = ''dcat_ap_es_compliance'', mc_weight = binary64 (7 / 10),
              mc_property = ''shacl''\<rparr>"
  have loop: "dimensionLoop_binary64 ?ev [?m1, ?m2] ([], 0, 0)
                = ([?ev ?m1, ?ev ?m2], 80, 7205759403792793 / 2 ^ 53)"
    unfolding dimensionLoop_binary64_two
    by (simp only: MetricConfig.select_convs compliance_value rounded_weighted_sum
        rounded_total_weight)
  have m: "qd_weight ?d = 100"
    unfolding calculateDimension_binary64_def roundingConfig_metrics roundingConfig_maxScore
      Let_def loop
    by simp
  have "qd_score ?d = 7036874417766402 / 2 ^ 46"
    unfolding calculateDimension_binary64_def roundingConfig_metrics roundingConfig_maxScore
      Let_def loop
    by (simp only: prod.case pos if_True QualityDimension.select_convs rounded_score)
  then have s: "qd_score ?d = 100 + 1 / 2 ^ 45"
    by simp
  have "qd_weight ?d < qd_score ?d"
    unfolding m s by simp
  with w m s show ?thesis
    by (simp only: simp_thms)
qed

end
